theory Spec2Isabelle
  imports Complex_Main
begin

section \<open>One-dimensional LQR with a PPO agent and an energy-based (SAC-like) agent\<close>

text \<open>
  The two scripts \<^verbatim>\<open>LQR/1dim_PPO.py\<close> and \<^verbatim>\<open>LQR/1dim_SAC.py\<close> are embedded as
  state-passing functions.  Python floats are read as real numbers.  Everything that
  happens inside torch (networks, sampling, autograd, optimizers), inside matplotlib
  and inside the module \<^verbatim>\<open>lqr_control\<close> is a parameter of the model: a record of
  functions over an opaque library state \<open>'w\<close> and an opaque tensor type \<open>'t\<close>, each
  returning \<open>Inl e\<close> where the library raises.  Names that occur in both scripts carry
  the prefix \<open>ppo_\<close> or \<open>sac_\<close>.
\<close>

subsection \<open>Exceptions\<close>

datatype error =
  ValueError | RuntimeError | TypeError | IndexError | ZeroDivisionError | NameError

subsection \<open>Monte Carlo estimates of the discounted rewards\<close>

text \<open>
  The loop at the head of \<^verbatim>\<open>PPO.update_actor\<close> (lines 171-177).  The list argument is
  \<^verbatim>\<open>zip(reversed(memory.rewards), reversed(memory.is_terminals))\<close>; \<^verbatim>\<open>insert(0, _)\<close>
  is a cons.  The loops are stated before the class Memory, whose field names would
  otherwise hide the local variables \<^verbatim>\<open>rewards\<close> and \<^verbatim>\<open>costs\<close>.
\<close>

fun update_actor_loop :: "real \<Rightarrow> (real \<times> bool) list \<Rightarrow> real \<Rightarrow> real list \<Rightarrow> real list" where
  "update_actor_loop gamma [] discounted_reward rewards = rewards"
| "update_actor_loop gamma ((reward, is_terminal) # rest) discounted_reward rewards =
     (let discounted_reward = (if is_terminal then 0 else discounted_reward);
          discounted_reward = reward + (gamma * discounted_reward)
      in update_actor_loop gamma rest discounted_reward (discounted_reward # rewards))"

text \<open>The loop of \<^verbatim>\<open>PPO.update_critic\<close> (lines 213-219).\<close>

fun update_critic_loop :: "real \<Rightarrow> (real \<times> bool) list \<Rightarrow> real \<Rightarrow> real list \<Rightarrow> real list" where
  "update_critic_loop gamma [] discounted_reward rewards = rewards"
| "update_critic_loop gamma ((reward, is_terminal) # rest) discounted_reward rewards =
     (let discounted_reward = (if is_terminal then 0 else discounted_reward);
          discounted_reward = reward + (gamma * discounted_reward)
      in update_critic_loop gamma rest discounted_reward (discounted_reward # rewards))"

text \<open>The loop of \<^verbatim>\<open>SAC.update\<close> (lines 163-169).\<close>

fun sac_update_loop :: "real \<Rightarrow> (real \<times> bool) list \<Rightarrow> real \<Rightarrow> real list \<Rightarrow> real list" where
  "sac_update_loop gamma [] discounted_cost costs = costs"
| "sac_update_loop gamma ((cost, is_terminal) # rest) discounted_cost costs =
     (let discounted_cost = (if is_terminal then 0 else discounted_cost);
          discounted_cost = cost + (gamma * discounted_cost)
      in sac_update_loop gamma rest discounted_cost (discounted_cost # costs))"

text \<open>
  The recurrence in words: the return of a step is its reward plus \<open>gamma\<close> times the
  return of the next step, where a terminal step (and the last step) has no next step.
  This definition follows the description, front to back; it is the reference against
  which the loops above are compared.
\<close>

fun head_or_zero :: "real list \<Rightarrow> real" where
  "head_or_zero [] = 0"
| "head_or_zero (g # _) = g"

fun discounted_returns :: "real \<Rightarrow> real list \<Rightarrow> bool list \<Rightarrow> real list" where
  "discounted_returns gamma (r # rs) (d # ds) =
     (r + gamma * (if d then 0 else head_or_zero (discounted_returns gamma rs ds)))
       # discounted_returns gamma rs ds"
| "discounted_returns gamma _ _ = []"

text \<open>The same recurrence without any reset.\<close>

fun discounted_sums :: "real \<Rightarrow> real list \<Rightarrow> real list" where
  "discounted_sums gamma [] = []"
| "discounted_sums gamma (c # cs) =
     (c + gamma * head_or_zero (discounted_sums gamma cs)) # discounted_sums gamma cs"

subsection \<open>Raising and propagating\<close>

text \<open>
  A statement that may raise returns \<open>Inl e\<close>.  Neither script contains a \<^verbatim>\<open>try\<close>, so a
  sequence of statements is \<open>and_then\<close>: the first exception ends the sequence.
\<close>

definition and_then :: "error + 'a \<Rightarrow> ('a \<Rightarrow> error + 'b) \<Rightarrow> error + 'b" where
  "and_then r f = (case r of Inl e \<Rightarrow> Inl e | Inr x \<Rightarrow> f x)"

text \<open>
  \<^verbatim>\<open>for i in range(start, start + n): body\<close>.  The body returns whether it executed
  \<^verbatim>\<open>break\<close>; the loop returns whether it was left by \<^verbatim>\<open>break\<close>.
\<close>

primrec for_range :: "nat \<Rightarrow> nat \<Rightarrow> (nat \<Rightarrow> 's \<Rightarrow> error + (bool \<times> 's)) \<Rightarrow> 's \<Rightarrow> error + (bool \<times> 's)" where
  "for_range 0 i body s = Inr (False, s)"
| "for_range (Suc n) i body s =
     and_then (body i s) (\<lambda>(broke, s').
       if broke then Inr (True, s') else for_range n (Suc i) body s')"

subsection \<open>The numpy operations the scripts use\<close>

text \<open>
  A two-dimensional array is the list of its rows, a one-dimensional array a list.
  \<open>matmul\<close> is \<^verbatim>\<open>np.matmul\<close> (and \<^verbatim>\<open>@\<close>) of two two-dimensional arrays, \<open>matvec\<close> of a
  two-dimensional and a one-dimensional array.
  \<^verbatim>\<open>np.matmul\<close> raises \<^verbatim>\<open>ValueError\<close> when the inner dimensions differ; \<^verbatim>\<open>+\<close> broadcasts
  a dimension of size 1 and raises otherwise; \<^verbatim>\<open>item()\<close> and \<^verbatim>\<open>reshape(1,1)\<close> need
  exactly one element; the truth value of a comparison of an array needs exactly one
  element.
\<close>

type_synonym ndarray = "real list list"

definition ncols :: "ndarray \<Rightarrow> nat" where
  "ncols a = (case a of [] \<Rightarrow> 0 | row # _ \<Rightarrow> length row)"

definition shape :: "ndarray \<Rightarrow> nat \<times> nat" where
  "shape a = (length a, ncols a)"

definition dot :: "real list \<Rightarrow> real list \<Rightarrow> real" where
  "dot v w = sum_list (map2 (*) v w)"

definition matmul :: "ndarray \<Rightarrow> ndarray \<Rightarrow> error + ndarray" where
  "matmul a b =
     (if ncols a = length b then Inr (map (\<lambda>row. map (dot row) (transpose b)) a)
      else Inl ValueError)"

definition matvec :: "ndarray \<Rightarrow> real list \<Rightarrow> error + real list" where
  "matvec a v = (if ncols a = length v then Inr (map (\<lambda>row. dot row v) a) else Inl ValueError)"

definition stretch :: "nat \<Rightarrow> 'a list \<Rightarrow> 'a list" where
  "stretch n xs = (case xs of [x] \<Rightarrow> replicate n x | _ \<Rightarrow> xs)"

definition broadcast_dim :: "nat \<Rightarrow> nat \<Rightarrow> nat option" where
  "broadcast_dim n m =
     (if n = m then Some n else if n = 1 then Some m else if m = 1 then Some n else None)"

definition vec_add :: "real list \<Rightarrow> real list \<Rightarrow> error + real list" where
  "vec_add v w =
     (case broadcast_dim (length v) (length w) of
        None \<Rightarrow> Inl ValueError
      | Some n \<Rightarrow> Inr (map2 (+) (stretch n v) (stretch n w)))"

definition np_add :: "ndarray \<Rightarrow> ndarray \<Rightarrow> error + ndarray" where
  "np_add a b =
     (case (broadcast_dim (length a) (length b), broadcast_dim (ncols a) (ncols b)) of
        (Some n, Some m) \<Rightarrow>
          Inr (map2 (\<lambda>r r'. map2 (+) (stretch m r) (stretch m r')) (stretch n a) (stretch n b))
      | _ \<Rightarrow> Inl ValueError)"

definition item :: "ndarray \<Rightarrow> error + real" where
  "item a = (case a of [[x]] \<Rightarrow> Inr x | _ \<Rightarrow> Inl ValueError)"

definition item1 :: "real list \<Rightarrow> error + real" where
  "item1 v = (case v of [x] \<Rightarrow> Inr x | _ \<Rightarrow> Inl ValueError)"

definition reshape_1_1 :: "real list \<Rightarrow> error + ndarray" where
  "reshape_1_1 v = (case v of [x] \<Rightarrow> Inr [[x]] | _ \<Rightarrow> Inl ValueError)"

definition reshape_1_any :: "ndarray \<Rightarrow> ndarray" where
  "reshape_1_any a = [concat a]"

definition abs_greater :: "ndarray \<Rightarrow> real \<Rightarrow> error + bool" where
  "abs_greater a c = (case a of [[x]] \<Rightarrow> Inr (\<bar>x\<bar> > c) | _ \<Rightarrow> Inl ValueError)"

definition linspace :: "real \<Rightarrow> real \<Rightarrow> real list" where
  "linspace low high = map (\<lambda>i. low + real i * (high - low) / 99) [0..<100]"

definition arange :: "nat \<Rightarrow> real list" where
  "arange n = map real [0..<n]"

subsection \<open>The surrogate loss of PPO.update_actor\<close>

text \<open>
  Lines 194-200 of \<^verbatim>\<open>1dim_PPO.py\<close> are element-wise tensor expressions.  A tensor is
  read by its entries.  \<^verbatim>\<open>logprobs\<close> is built by \<^verbatim>\<open>torch.tensor\<close> from a list of \<open>N\<close>
  one-entry tensors (line 142) and has shape \<open>(N)\<close>; \<^verbatim>\<open>old_logprobs\<close> is the stack of the
  stored log-probabilities, each of shape \<open>(1)\<close> (line 128 on a state of shape \<open>(1,1)\<close>),
  and has shape \<open>(N,1)\<close>, one row per stored step; \<^verbatim>\<open>rewards\<close> and the squeezed
  \<^verbatim>\<open>state_values\<close> are one-dimensional.  An element-wise operation broadcasts a
  dimension of size 1 and raises \<^verbatim>\<open>RuntimeError\<close> when the sizes differ otherwise.  So
  \<^verbatim>\<open>logprobs - old_logprobs\<close> has one row for every old log-probability and one column
  for every new one.  \<^verbatim>\<open>torch.sign\<close> is \<open>sgn\<close> (zero at zero), \<^verbatim>\<open>torch.ones_like\<close>
  contributes the entry 1.
\<close>

definition broadcast :: "(real \<Rightarrow> real \<Rightarrow> real) \<Rightarrow> real list \<Rightarrow> real list \<Rightarrow> error + real list" where
  "broadcast f v w =
     (case broadcast_dim (length v) (length w) of
        None \<Rightarrow> Inl RuntimeError
      | Some n \<Rightarrow> Inr (map2 f (stretch n v) (stretch n w)))"

text \<open>A matrix with rows of the given width against a one-dimensional tensor; the result
  comes with its width.\<close>

definition broadcast_rows ::
  "(real \<Rightarrow> real \<Rightarrow> real) \<Rightarrow> real list list \<Rightarrow> nat \<Rightarrow> real list
     \<Rightarrow> error + (nat \<times> real list list)" where
  "broadcast_rows f rows width v =
     (case broadcast_dim width (length v) of
        None \<Rightarrow> Inl RuntimeError
      | Some n \<Rightarrow> Inr (n, map (\<lambda>row. map2 f (stretch n row) (stretch n v)) rows))"

text \<open>Line 194, \<^verbatim>\<open>ratios = torch.exp(logprobs - old_logprobs)\<close>.\<close>

definition ratios :: "real list \<Rightarrow> real list \<Rightarrow> real list list" where
  "ratios logprobs old_logprobs =
     map (\<lambda>old_logprob. map (\<lambda>logprob. exp (logprob - old_logprob)) logprobs) old_logprobs"

text \<open>Line 197, \<^verbatim>\<open>advantages = rewards - state_values.detach()\<close>.\<close>

definition advantages :: "real list \<Rightarrow> real list \<Rightarrow> error + real list" where
  "advantages rewards state_values = broadcast (-) rewards state_values"

text \<open>Line 199, the second argument of the minimum.\<close>

definition surr2 :: "real \<Rightarrow> real list \<Rightarrow> real list" where
  "surr2 eps_clip advs = map (\<lambda>advantage. (1 - eps_clip * sgn advantage) * advantage) advs"

text \<open>Lines 194-200 together: \<^verbatim>\<open>surr1 = ratios * advantages\<close> (line 198) and
  \<^verbatim>\<open>actor_loss = torch.min(surr1, surr2)\<close> (line 200).\<close>

definition actor_loss ::
  "real \<Rightarrow> real list \<Rightarrow> real list \<Rightarrow> real list \<Rightarrow> real list \<Rightarrow> error + real list list" where
  "actor_loss eps_clip logprobs old_logprobs rewards state_values =
     and_then (advantages rewards state_values) (\<lambda>advs.
     and_then (broadcast_rows (*) (ratios logprobs old_logprobs) (length logprobs) advs)
       (\<lambda>(n, surr1).
     and_then (broadcast_rows min surr1 n (surr2 eps_clip advs))
       (\<lambda>(_, loss). Inr loss)))"

text \<open>
  The clipped surrogate of the PPO literature, written from its description: for every
  stored sample \<open>min (ratio * advantage, clip (ratio, 1 - eps, 1 + eps) * advantage)\<close>,
  where the ratio is the exponential of the new minus the old log-probability of that
  sample and the advantage is its normalized discounted reward minus its critic value.
\<close>

definition clip :: "real \<Rightarrow> real \<Rightarrow> real \<Rightarrow> real" where
  "clip x lo hi = min (max x lo) hi"

definition clipped_surrogate :: "real \<Rightarrow> real \<Rightarrow> real \<Rightarrow> real" where
  "clipped_surrogate eps_clip ratio advantage =
     min (ratio * advantage) (clip ratio (1 - eps_clip) (1 + eps_clip) * advantage)"

fun clipped_surrogate_loss ::
  "real \<Rightarrow> real list \<Rightarrow> real list \<Rightarrow> real list \<Rightarrow> real list \<Rightarrow> real list" where
  "clipped_surrogate_loss eps_clip (logprob # ls) (old_logprob # os) (reward # rs)
       (state_value # vs) =
     clipped_surrogate eps_clip (exp (logprob - old_logprob)) (reward - state_value)
       # clipped_surrogate_loss eps_clip ls os rs vs"
| "clipped_surrogate_loss eps_clip _ _ _ _ = []"

subsection \<open>The class Memory\<close>

text \<open>\<^verbatim>\<open>1dim_PPO.py\<close>, lines 65-78.\<close>

record 't ppo_Memory =
  actions :: "'t list"
  states :: "'t list"
  logprobs :: "'t list"
  rewards :: "real list"
  is_terminals :: "bool list"

definition ppo_Memory_init :: "'t ppo_Memory" where
  "ppo_Memory_init =
     \<lparr>actions = [], states = [], logprobs = [], rewards = [], is_terminals = []\<rparr>"

definition ppo_clear_memory :: "('t, 'z) ppo_Memory_scheme \<Rightarrow> ('t, 'z) ppo_Memory_scheme" where
  "ppo_clear_memory self =
     self\<lparr>actions := [], states := [], logprobs := [], rewards := [], is_terminals := []\<rparr>"

subsection \<open>The discounted rewards of a memory\<close>

text \<open>The loops above, started as \<^verbatim>\<open>update_actor\<close> and \<^verbatim>\<open>update_critic\<close> start them.\<close>

definition update_actor_rewards :: "real \<Rightarrow> ('t, 'z) ppo_Memory_scheme \<Rightarrow> real list" where
  "update_actor_rewards gamma memory =
     update_actor_loop gamma
       (zip (rev (rewards memory)) (rev (ppo_Memory.is_terminals memory))) 0 []"

definition update_critic_rewards :: "real \<Rightarrow> ('t, 'z) ppo_Memory_scheme \<Rightarrow> real list" where
  "update_critic_rewards gamma memory =
     update_critic_loop gamma
       (zip (rev (rewards memory)) (rev (ppo_Memory.is_terminals memory))) 0 []"

subsection \<open>What leaves the program, and the libraries\<close>

text \<open>
  A figure as \<^verbatim>\<open>compare_paths\<close> and \<^verbatim>\<open>compare_V\<close> build it: the plotted curves (label,
  abscissae, ordinates) and the two axis labels.
\<close>

record figure =
  curves :: "(string \<times> real list \<times> real list) list"
  xlabel :: string
  ylabel :: string

text \<open>
  The effects on the outside world, in the order in which they happen: the three
  \<^verbatim>\<open>print\<close> statements (with the values they format), \<^verbatim>\<open>plt.close("all")\<close>,
  \<^verbatim>\<open>plt.show()\<close> of a figure, and \<^verbatim>\<open>torch.save\<close> of a checkpoint to a path.  The last
  is the only file-writing call that the sources name; it stands in a comment of the
  PPO script (lines 317-321) and no definition below emits it.
\<close>

datatype effect =
    Print_seed nat
  | Print_rates "real list"
  | Print_episode nat "real list"
  | Close_all
  | Show figure
  | Torch_save string

text \<open>
  The libraries.  \<open>'w\<close> is the state that the libraries keep between calls (the random
  generators of numpy and torch, the parameters of the networks and the optimizers);
  \<open>'t\<close> is the type of torch tensors.  The fields are, in this order: the two seeding
  calls; \<^verbatim>\<open>np.random.uniform\<close> and \<^verbatim>\<open>np.random.randn\<close> for one entry; \<^verbatim>\<open>control.dlqr\<close>
  (its first two results), \<^verbatim>\<open>control.simulate_discrete\<close> and \<^verbatim>\<open>control.trueloss\<close> of
  the module \<^verbatim>\<open>lqr_control\<close>; \<^verbatim>\<open>torch.FloatTensor(_).to(device)\<close>;
  \<^verbatim>\<open>_.cpu().data.numpy().flatten()\<close>; \<^verbatim>\<open>torch.stack(_).to(device).detach()\<close>; then, for
  the PPO script, the torch part of the constructor \<^verbatim>\<open>PPO(...)\<close> (its arguments are
  state_dim, action_dim, n_latent_var, action_std, actor_lr, critic_lr, betas, double),
  lines 123-128 of \<^verbatim>\<open>ActorCritic.act\<close> on \<^verbatim>\<open>policy_old\<close> (action and log-probability),
  lines 180-181 (normalizing), line 191 (\<^verbatim>\<open>policy.evaluate\<close>, lines 136-145, on the
  stacked states and actions and alpha: the new log-probabilities and the squeezed
  values of the critic), the entries of a tensor in row-major order (as the model reads
  the operands of lines 194-200), lines 203-205 (the gradient step of the actor on the
  mean of the loss), line 208, lines 221-222
  (given alpha), lines 226-233 (one epoch of the critic, given alpha, the states and
  the rewards), a forward pass of \<^verbatim>\<open>ppo.policy.actor\<close> on a one-dimensional array and of
  \<^verbatim>\<open>ppo.policy.critic\<close> on a column of states; and for the SAC script the torch part
  of \<^verbatim>\<open>SAC(...)\<close> (state_dim, action_dim, n_latent_var, tau, lr, betas), lines 129-130
  of \<^verbatim>\<open>Model.act\<close> on \<^verbatim>\<open>policy_old\<close>, line 172, lines 182-192 (one epoch, given tau)
  and line 195.
\<close>

record ('w, 't) libs =
  manual_seed :: "nat \<Rightarrow> 'w \<Rightarrow> 'w"
  np_random_seed :: "nat \<Rightarrow> 'w \<Rightarrow> 'w"
  np_random_uniform :: "real \<Rightarrow> real \<Rightarrow> 'w \<Rightarrow> real \<times> 'w"
  np_random_randn :: "'w \<Rightarrow> real \<times> 'w"
  dlqr :: "ndarray \<Rightarrow> ndarray \<Rightarrow> ndarray \<Rightarrow> ndarray \<Rightarrow> error + (ndarray \<times> ndarray)"
  simulate_discrete ::
    "ndarray \<Rightarrow> ndarray \<Rightarrow> ndarray \<Rightarrow> ndarray \<Rightarrow> ndarray \<Rightarrow> nat \<Rightarrow> error + (ndarray \<times> ndarray)"
  trueloss ::
    "ndarray \<Rightarrow> ndarray \<Rightarrow> ndarray \<Rightarrow> ndarray \<Rightarrow> ndarray \<Rightarrow> real list \<Rightarrow> nat \<Rightarrow> real
       \<Rightarrow> error + real list"
  FloatTensor :: "ndarray \<Rightarrow> 't"
  numpy_flatten :: "'t \<Rightarrow> real list"
  stack :: "'t list \<Rightarrow> error + 't"
  PPO_new :: "nat \<Rightarrow> nat \<Rightarrow> nat \<Rightarrow> real \<Rightarrow> real \<Rightarrow> real \<Rightarrow> real \<times> real \<Rightarrow> bool \<Rightarrow> 'w \<Rightarrow> error + 'w"
  ppo_act_sample :: "'w \<Rightarrow> 't \<Rightarrow> error + ('t \<times> 't \<times> 'w)"
  ppo_actor_normalize :: "real list \<Rightarrow> error + 't"
  ppo_evaluate :: "'w \<Rightarrow> 't \<Rightarrow> 't \<Rightarrow> real \<Rightarrow> error + ('t \<times> 't)"
  entries :: "'t \<Rightarrow> real list"
  ppo_actor_step :: "real list list \<Rightarrow> 'w \<Rightarrow> error + 'w"
  ppo_load_state_dict :: "'w \<Rightarrow> 'w"
  ppo_critic_normalize :: "real \<Rightarrow> real list \<Rightarrow> error + 't"
  ppo_critic_epoch :: "real \<Rightarrow> 't \<Rightarrow> 't \<Rightarrow> 'w \<Rightarrow> error + 'w"
  ppo_actor_forward :: "'w \<Rightarrow> real list \<Rightarrow> error + real list"
  ppo_critic_forward :: "'w \<Rightarrow> real list \<Rightarrow> error + real list"
  SAC_new :: "nat \<Rightarrow> nat \<Rightarrow> nat \<Rightarrow> real \<Rightarrow> real \<Rightarrow> real \<times> real \<Rightarrow> 'w \<Rightarrow> error + 'w"
  sac_act_sample :: "'w \<Rightarrow> 't \<Rightarrow> error + ('t \<times> 'w)"
  sac_costs_tensor :: "real list \<Rightarrow> error + 't"
  sac_epoch :: "real \<Rightarrow> 't \<Rightarrow> 't \<Rightarrow> 't \<Rightarrow> 'w \<Rightarrow> error + 'w"
  sac_load_state_dict :: "'w \<Rightarrow> 'w"

text \<open>The effects that write a file, and the effects that show a figure.\<close>

fun writes_file :: "effect \<Rightarrow> bool" where
  "writes_file (Torch_save path) = True"
| "writes_file _ = False"

fun shows_figure :: "effect \<Rightarrow> bool" where
  "shows_figure (Show fig) = True"
| "shows_figure _ = False"

definition py_mod :: "nat \<Rightarrow> nat \<Rightarrow> error + nat" where
  "py_mod a b = (if b = 0 then Inl ZeroDivisionError else Inr (a mod b))"

text \<open>\<^verbatim>\<open>np.squeeze\<close> of an array with a single row (or a single column) of more than one
  entry: the one-dimensional array of its entries.\<close>

definition squeeze :: "ndarray \<Rightarrow> real list" where
  "squeeze a = concat a"

subsection \<open>The PPO script\<close>

text \<open>The hyperparameter block, lines 239-264, and its values.\<close>

record ppo_hyper =
  A :: ndarray
  B :: ndarray
  Q :: ndarray
  R :: ndarray
  state_dim :: nat
  action_dim :: nat
  log_interval :: nat
  max_episodes :: nat
  max_timesteps :: nat
  n_latent_var :: nat
  update_timestep :: nat
  action_std :: real
  K_epochs :: nat
  eps_clip :: real
  gamma :: real
  alpha :: real
  actor_lr :: real
  critic_lr :: real
  betas :: "real \<times> real"
  random_seed :: nat

definition ppo_hyperparameters :: ppo_hyper where
  "ppo_hyperparameters =
     \<lparr>A = [[1]], B = [[1]], Q = [[1]], R = [[1]],
      state_dim = 1, action_dim = 1, log_interval = 500, max_episodes = 10000,
      max_timesteps = 100, n_latent_var = 64, update_timestep = 400, action_std = 1 / 10,
      K_epochs = 10, eps_clip = 2 / 10, gamma = 99 / 100, alpha = 100,
      actor_lr = 1 / 1000, critic_lr = 1 / 1000, betas = (9 / 10, 999 / 1000),
      random_seed = 1\<rparr>"

text \<open>
  The variables of the script that live across statements.  \<open>world\<close> is the state of
  the libraries (it holds the object \<^verbatim>\<open>ppo\<close>), \<open>effects\<close> what has left the program so far.  \<open>state\<close>,
  \<open>done\<close> and \<open>t\<close> are unbound until their first assignment; \<open>t\<close> is read after the
  inner loop, so its being unbound is kept.
\<close>

record ('w, 't) ppo_vars =
  memory :: "'t ppo_Memory"
  world :: 'w
  effects :: "effect list"
  running_reward :: real
  avg_length :: real
  time_step :: nat
  state :: ndarray
  "done" :: bool
  t :: "nat option"

text \<open>\<^verbatim>\<open>ActorCritic.act\<close>, lines 122-134, and \<^verbatim>\<open>PPO.select_action\<close>, lines 165-167.\<close>

definition ActorCritic_act ::
  "('w, 't) libs \<Rightarrow> 't \<Rightarrow> 't ppo_Memory \<Rightarrow> 'w \<Rightarrow> error + ('t \<times> 't ppo_Memory \<times> 'w)" where
  "ActorCritic_act lib x m w =
     and_then (ppo_act_sample lib w x) (\<lambda>(action, action_logprob, w').
       Inr (action,
            m\<lparr>states := states m @ [x], actions := actions m @ [action],
              logprobs := logprobs m @ [action_logprob]\<rparr>,
            w'))"

definition ppo_select_action ::
  "('w, 't) libs \<Rightarrow> ndarray \<Rightarrow> 't ppo_Memory \<Rightarrow> 'w \<Rightarrow> error + (real list \<times> 't ppo_Memory \<times> 'w)" where
  "ppo_select_action lib x m w =
     and_then (ActorCritic_act lib (FloatTensor lib (reshape_1_any x)) m w)
       (\<lambda>(action, m', w'). Inr (numpy_flatten lib action, m', w'))"

text \<open>Lines 190-205, the body of \<^verbatim>\<open>for _ in range(self.K_epochs)\<close> in
  \<^verbatim>\<open>PPO.update_actor\<close>.\<close>

definition ppo_actor_epoch ::
  "('w, 't) libs \<Rightarrow> ppo_hyper \<Rightarrow> 't \<Rightarrow> 't \<Rightarrow> 't \<Rightarrow> 't \<Rightarrow> nat \<Rightarrow> 'w \<Rightarrow> error + (bool \<times> 'w)" where
  "ppo_actor_epoch lib hp rewards_t old_states old_actions old_logprobs k w =
     and_then (ppo_evaluate lib w old_states old_actions (alpha hp))
       (\<lambda>(logprobs_t, state_values).
     and_then (actor_loss (eps_clip hp) (entries lib logprobs_t) (entries lib old_logprobs)
                 (entries lib rewards_t) (entries lib state_values)) (\<lambda>loss.
     and_then (ppo_actor_step lib loss w) (\<lambda>w'. Inr (False, w'))))"

text \<open>\<^verbatim>\<open>PPO.update_actor\<close>, lines 169-208.\<close>

definition ppo_update_actor ::
  "('w, 't) libs \<Rightarrow> ppo_hyper \<Rightarrow> 't ppo_Memory \<Rightarrow> 'w \<Rightarrow> error + 'w" where
  "ppo_update_actor lib hp m w =
     and_then (ppo_actor_normalize lib (update_actor_rewards (gamma hp) m)) (\<lambda>rewards_t.
     and_then (stack lib (states m)) (\<lambda>old_states.
     and_then (stack lib (actions m)) (\<lambda>old_actions.
     and_then (stack lib (logprobs m)) (\<lambda>old_logprobs.
     and_then (for_range (K_epochs hp) 0
                 (ppo_actor_epoch lib hp rewards_t old_states old_actions old_logprobs) w)
       (\<lambda>(_, w3). Inr (ppo_load_state_dict lib w3))))))"

text \<open>\<^verbatim>\<open>PPO.update_critic\<close>, lines 210-233.\<close>

definition ppo_update_critic ::
  "('w, 't) libs \<Rightarrow> ppo_hyper \<Rightarrow> 't ppo_Memory \<Rightarrow> 'w \<Rightarrow> error + 'w" where
  "ppo_update_critic lib hp m w =
     and_then (stack lib (states m)) (\<lambda>states_t.
     and_then (ppo_critic_normalize lib (alpha hp) (update_critic_rewards (gamma hp) m))
       (\<lambda>rewards_t.
     and_then (for_range (K_epochs hp) 0
                 (\<lambda>_ w1. and_then (ppo_critic_epoch lib (alpha hp) states_t rewards_t w1)
                            (\<lambda>w2. Inr (False, w2))) w)
       (\<lambda>(_, w3). Inr w3)))"

text \<open>Lines 293 and 294: the cost of a step and the next state.  \<open>action\<close> is the flat
  array that \<open>select_action\<close> returns.\<close>

definition ppo_reward :: "ppo_hyper \<Rightarrow> ndarray \<Rightarrow> real list \<Rightarrow> error + ndarray" where
  "ppo_reward hp x action =
     and_then (matmul (Q hp) x) (\<lambda>qx.
     and_then (matmul x qx) (\<lambda>xqx.
     and_then (reshape_1_1 action) (\<lambda>u.
     and_then (reshape_1_1 action) (\<lambda>u'.
     and_then (matmul (R hp) u') (\<lambda>ru.
     and_then (matmul u ru) (\<lambda>uru. np_add xqx uru))))))"

definition ppo_next_state :: "ppo_hyper \<Rightarrow> ndarray \<Rightarrow> real list \<Rightarrow> error + ndarray" where
  "ppo_next_state hp x action =
     and_then (matmul (A hp) x) (\<lambda>ax.
     and_then (reshape_1_1 action) (\<lambda>u.
     and_then (matmul (B hp) u) (\<lambda>bu. np_add ax bu)))"

text \<open>Lines 306-309, the body of \<^verbatim>\<open>if time_step % update_timestep == 0\<close>.\<close>

definition ppo_update :: "('w, 't) libs \<Rightarrow> ppo_hyper \<Rightarrow> ('w, 't) ppo_vars \<Rightarrow> error + ('w, 't) ppo_vars" where
  "ppo_update lib hp s =
     and_then (ppo_update_actor lib hp (memory s) (world s)) (\<lambda>w1.
     and_then (ppo_update_critic lib hp (memory s) w1) (\<lambda>w2.
       Inr (s\<lparr>world := w2, memory := ppo_clear_memory (memory s), time_step := 0\<rparr>)))"

text \<open>Lines 289-313, the body of \<^verbatim>\<open>for t in range(max_timesteps)\<close>.\<close>

definition ppo_step ::
  "('w, 't) libs \<Rightarrow> ppo_hyper \<Rightarrow> nat \<Rightarrow> ('w, 't) ppo_vars \<Rightarrow> error + (bool \<times> ('w, 't) ppo_vars)" where
  "ppo_step lib hp k s =
     (let s1 = s\<lparr>t := Some k, time_step := time_step s + 1\<rparr> in
      and_then (ppo_select_action lib (state s1) (memory s1) (world s1)) (\<lambda>(action, m1, w1).
      and_then (ppo_reward hp (state s1) action) (\<lambda>reward.
      and_then (ppo_next_state hp (state s1) action) (\<lambda>x'.
      and_then (abs_greater x' 10) (\<lambda>far.
      and_then (item reward) (\<lambda>r.
        let d = (if far then True else done s1);
            m2 = m1\<lparr>rewards := rewards m1 @ [r], is_terminals := is_terminals m1 @ [d]\<rparr>;
            s2 = s1\<lparr>memory := m2, world := w1, state := x', done := d\<rparr>
        in
      and_then (py_mod (time_step s2) (update_timestep hp)) (\<lambda>rest.
      and_then (if rest = 0 then ppo_update lib hp s2 else Inr s2) (\<lambda>s3.
        Inr (d, s3\<lparr>running_reward := running_reward s3 + r\<rparr>)))))))))"

text \<open>Lines 286-333, the body of \<^verbatim>\<open>for i_episode in range(1, max_episodes+1)\<close>.\<close>

definition ppo_episode ::
  "('w, 't) libs \<Rightarrow> ppo_hyper \<Rightarrow> nat \<Rightarrow> ('w, 't) ppo_vars \<Rightarrow> error + (bool \<times> ('w, 't) ppo_vars)" where
  "ppo_episode lib hp i_episode s =
     (case np_random_uniform lib (- 5) 5 (world s) of (x, w1) \<Rightarrow>
      and_then (for_range (max_timesteps hp) 0 (ppo_step lib hp)
                  (s\<lparr>state := [[x]], world := w1, done := False\<rparr>)) (\<lambda>(_, s2).
      and_then (case t s2 of None \<Rightarrow> Inl NameError | Some k \<Rightarrow> Inr k) (\<lambda>k.
        let s3 = s2\<lparr>avg_length := avg_length s2 + real k\<rparr> in
      and_then (py_mod i_episode (log_interval hp)) (\<lambda>rest.
        if rest = 0 then
          Inr (False,
               s3\<lparr>effects := effects s3 @
                      [Close_all,
                       Print_episode i_episode
                         [avg_length s3 / real (log_interval hp),
                          running_reward s3 / real (log_interval hp)]],
                  running_reward := 0, avg_length := 0\<rparr>)
        else Inr (False, s3)))))"

text \<open>\<^verbatim>\<open>simulate\<close>, lines 12-27; \<open>policy\<close> is \<^verbatim>\<open>ppo.policy.actor\<close>.  First the body of its
  loop, on the variables \<open>x\<close>, \<open>u\<close>, \<open>x_data\<close>, \<open>u_data\<close>.\<close>

definition simulate_step ::
  "('w, 't) libs \<Rightarrow> 'w \<Rightarrow> ndarray \<Rightarrow> ndarray \<Rightarrow> nat
     \<Rightarrow> real list \<times> real list \<times> real list \<times> real list
     \<Rightarrow> error + (bool \<times> real list \<times> real list \<times> real list \<times> real list)" where
  "simulate_step lib w a b k =
     (\<lambda>(x, u, x_data, u_data).
        and_then (item1 u) (\<lambda>ui.
        and_then (item1 x) (\<lambda>xi.
        and_then (ppo_actor_forward lib w x) (\<lambda>u'.
        and_then (matvec a x) (\<lambda>ax.
        and_then (matvec b u') (\<lambda>bu.
        and_then (vec_add ax bu) (\<lambda>x'.
          Inr (False, (x', u', x_data @ [xi], u_data @ [ui])))))))))"

definition simulate ::
  "('w, 't) libs \<Rightarrow> 'w \<Rightarrow> ndarray \<Rightarrow> ndarray \<Rightarrow> real list \<Rightarrow> real list \<Rightarrow> nat
     \<Rightarrow> error + (real list \<times> real list)" where
  "simulate lib w a b x0 u0 n =
     and_then (for_range n 0 (simulate_step lib w a b) (x0, u0, [], []))
       (\<lambda>(_, (x, u, x_data, u_data)). Inr (x_data, u_data))"

text \<open>\<^verbatim>\<open>compare_paths\<close>, lines 29-43.  \<^verbatim>\<open>ax.plot(t, x_sim)\<close> raises when the two lengths
  differ.\<close>

definition compare_paths :: "real list \<Rightarrow> real list \<Rightarrow> string \<Rightarrow> effect list \<Rightarrow> error + effect list" where
  "compare_paths x_sim x_star lab out =
     (let ts = arange (length x_star) in
      if length x_sim = length ts then
        Inr (out @ [Show \<lparr>curves = [(''Agent'', ts, x_sim), (''True'', ts, x_star)],
                          xlabel = ''Time'', ylabel = lab\<rparr>])
      else Inl ValueError)"

text \<open>\<^verbatim>\<open>compare_V\<close>, lines 45-63, with the default \<^verbatim>\<open>low=-1, high=1\<close>.\<close>

definition compare_V ::
  "('w, 't) libs \<Rightarrow> 'w \<Rightarrow> ndarray \<Rightarrow> ndarray \<Rightarrow> ndarray \<Rightarrow> ndarray \<Rightarrow> ndarray \<Rightarrow> nat \<Rightarrow> real \<Rightarrow> real
     \<Rightarrow> effect list \<Rightarrow> error + effect list" where
  "compare_V lib w a b q r K n g al out =
     (let xs = linspace (- 1) 1 in
      and_then (ppo_critic_forward lib w xs) (\<lambda>v.
        let values = map ((*) al) v in
        if length values \<noteq> length xs then Inl ValueError
        else
      and_then (trueloss lib a b q r K xs n g) (\<lambda>tl.
        if length tl \<noteq> length xs then Inl ValueError
        else
          Inr (out @ [Show \<lparr>curves = [(''Approx. Loss Function'', xs, values),
                                      (''Real Loss Function'', xs, tl)],
                            xlabel = ''x'', ylabel = ''y''\<rparr>]))))"

text \<open>Lines 267-282: seeding, the optimal gain, the memory and the agent.\<close>

definition ppo_setup ::
  "('w, 't) libs \<Rightarrow> ppo_hyper \<Rightarrow> 'w \<Rightarrow> error + (ndarray \<times> ('w, 't) ppo_vars)" where
  "ppo_setup lib hp w0 =
     (let seeded = (random_seed hp \<noteq> 0);
          out0 = (if seeded then [Print_seed (random_seed hp)] else []);
          w1 = (if seeded
                then np_random_seed lib (random_seed hp) (manual_seed lib (random_seed hp) w0)
                else w0)
      in
      and_then (dlqr lib (A hp) (B hp) (Q hp) (R hp)) (\<lambda>(K, _).
      and_then (PPO_new lib (state_dim hp) (action_dim hp) (n_latent_var hp) (action_std hp)
                  (actor_lr hp) (critic_lr hp) (betas hp) True w1) (\<lambda>w2.
        Inr (K,
             \<lparr>memory = ppo_Memory_init, world = w2,
              effects = out0 @ [Print_rates [actor_lr hp, critic_lr hp,
                                              fst (betas hp), snd (betas hp)]],
              running_reward = 0, avg_length = 0, time_step = 0,
              state = [], done = False, t = None\<rparr>))))"

text \<open>Lines 285-333, the training loop.\<close>

definition ppo_training ::
  "('w, 't) libs \<Rightarrow> ppo_hyper \<Rightarrow> ('w, 't) ppo_vars \<Rightarrow> error + ('w, 't) ppo_vars" where
  "ppo_training lib hp s =
     and_then (for_range (max_episodes hp) 1 (ppo_episode lib hp) s) (\<lambda>(_, s'). Inr s')"

text \<open>Lines 336-345, after the training loop.\<close>

definition ppo_comparison ::
  "('w, 't) libs \<Rightarrow> ppo_hyper \<Rightarrow> ndarray \<Rightarrow> ('w, 't) ppo_vars \<Rightarrow> error + ('w, 't) ppo_vars" where
  "ppo_comparison lib hp K s =
     (case np_random_randn lib (world s) of (x, w1) \<Rightarrow>
      and_then (reshape_1_1 [x]) (\<lambda>x0'.
      and_then (reshape_1_1 [0]) (\<lambda>u0'.
      and_then (simulate_discrete lib (A hp) (B hp) K x0' u0' 50) (\<lambda>(x_star, u_star).
      and_then (simulate lib w1 (A hp) (B hp) [x] [0] 50) (\<lambda>(x_sim, u_sim).
      and_then (compare_paths x_sim (squeeze (map butlast x_star)) ''state'' (effects s))
        (\<lambda>out1.
      and_then (compare_paths u_sim (squeeze (map butlast u_star)) ''action'' out1)
        (\<lambda>out2.
      and_then (compare_V lib w1 (A hp) (B hp) (Q hp) (R hp) K 50 (gamma hp) (alpha hp) out2)
        (\<lambda>out3. Inr (s\<lparr>world := w1, effects := out3\<rparr>)))))))))"

text \<open>The script, for any values of the hyperparameter block, and as it stands.\<close>

definition ppo_run :: "('w, 't) libs \<Rightarrow> ppo_hyper \<Rightarrow> 'w \<Rightarrow> error + ('w, 't) ppo_vars" where
  "ppo_run lib hp w0 =
     and_then (ppo_setup lib hp w0) (\<lambda>(K, s).
     and_then (ppo_training lib hp s) (\<lambda>s'. ppo_comparison lib hp K s'))"

definition ppo_main :: "('w, 't) libs \<Rightarrow> 'w \<Rightarrow> error + ('w, 't) ppo_vars" where
  "ppo_main lib w0 = ppo_run lib ppo_hyperparameters w0"

subsection \<open>The SAC script\<close>

text \<open>The class \<^verbatim>\<open>Memory\<close> of \<^verbatim>\<open>1dim_SAC.py\<close>, lines 88-101.  Its field names, and
  those of the records below, are the ones of the PPO script; from here on the PPO
  fields are written with their qualified names.\<close>

record 't sac_Memory =
  actions :: "'t list"
  states :: "'t list"
  logprobs :: "'t list"
  costs :: "real list"
  is_terminals :: "bool list"

definition sac_Memory_init :: "'t sac_Memory" where
  "sac_Memory_init =
     \<lparr>actions = [], states = [], logprobs = [], costs = [], is_terminals = []\<rparr>"

definition sac_clear_memory :: "('t, 'z) sac_Memory_scheme \<Rightarrow> ('t, 'z) sac_Memory_scheme" where
  "sac_clear_memory self =
     self\<lparr>actions := [], states := [], logprobs := [], costs := [], is_terminals := []\<rparr>"

text \<open>The discounted costs as \<^verbatim>\<open>SAC.update\<close> starts its loop.\<close>

definition sac_update_costs :: "real \<Rightarrow> ('t, 'z) sac_Memory_scheme \<Rightarrow> real list" where
  "sac_update_costs g m =
     sac_update_loop g (zip (rev (costs m)) (rev (is_terminals m))) 0 []"

text \<open>The hyperparameter block, lines 199-220, and its values.\<close>

record sac_hyper =
  A :: ndarray
  B :: ndarray
  Q :: ndarray
  R :: ndarray
  state_dim :: nat
  action_dim :: nat
  log_interval :: nat
  max_episodes :: nat
  max_timesteps :: nat
  solved_cost :: "real option"
  n_latent_var :: nat
  tau :: real
  K_epochs :: nat
  gamma :: real
  lr :: real
  betas :: "real \<times> real"
  random_seed :: nat

definition sac_hyperparameters :: sac_hyper where
  "sac_hyperparameters =
     \<lparr>A = [[1]], B = [[1]], Q = [[1]], R = [[1]],
      state_dim = 1, action_dim = 1, log_interval = 100, max_episodes = 100000,
      max_timesteps = 10, solved_cost = None, n_latent_var = 10, tau = 5 / 100,
      K_epochs = 10, gamma = 1, lr = 1 / 1000, betas = (9 / 10, 999 / 1000),
      random_seed = 1\<rparr>"

text \<open>The variables of the script.  \<open>cost\<close> is read after the inner loop (line 257), so
  its being unbound is kept.\<close>

record ('w, 't) sac_vars =
  memory :: "'t sac_Memory"
  world :: 'w
  effects :: "effect list"
  running_cost :: real
  state :: ndarray
  "done" :: bool
  cost :: "ndarray option"

text \<open>\<^verbatim>\<open>Model.act\<close>, lines 128-135, and \<^verbatim>\<open>SAC.select_action\<close>, lines 157-159.\<close>

definition Model_act ::
  "('w, 't) libs \<Rightarrow> 't \<Rightarrow> 't sac_Memory \<Rightarrow> 'w \<Rightarrow> error + ('t \<times> 't sac_Memory \<times> 'w)" where
  "Model_act lib x m w =
     and_then (sac_act_sample lib w x) (\<lambda>(action, w').
       Inr (action, m\<lparr>states := states m @ [x], actions := actions m @ [action]\<rparr>, w'))"

definition sac_select_action ::
  "('w, 't) libs \<Rightarrow> ndarray \<Rightarrow> 't sac_Memory \<Rightarrow> 'w \<Rightarrow> error + (real list \<times> 't sac_Memory \<times> 'w)" where
  "sac_select_action lib x m w =
     and_then (Model_act lib (FloatTensor lib (reshape_1_any x)) m w)
       (\<lambda>(action, m', w'). Inr (numpy_flatten lib action, m', w'))"

text \<open>\<^verbatim>\<open>SAC.update\<close>, lines 161-195.\<close>

definition sac_update ::
  "('w, 't) libs \<Rightarrow> sac_hyper \<Rightarrow> 't sac_Memory \<Rightarrow> 'w \<Rightarrow> error + 'w" where
  "sac_update lib hp m w =
     and_then (sac_costs_tensor lib (sac_update_costs (gamma hp) m)) (\<lambda>costs_t.
     and_then (stack lib (states m)) (\<lambda>old_states.
     and_then (stack lib (actions m)) (\<lambda>old_actions.
     and_then (for_range (K_epochs hp) 0
                 (\<lambda>_ w1. and_then (sac_epoch lib (tau hp) costs_t old_states old_actions w1)
                            (\<lambda>w2. Inr (False, w2))) w)
       (\<lambda>(_, w3). Inr (sac_load_state_dict lib w3)))))"

text \<open>Lines 243 and 244; \<^verbatim>\<open>@\<close> associates to the left.\<close>

definition sac_cost :: "sac_hyper \<Rightarrow> ndarray \<Rightarrow> real list \<Rightarrow> error + ndarray" where
  "sac_cost hp x action =
     and_then (matmul x (Q hp)) (\<lambda>xq.
     and_then (matmul xq x) (\<lambda>xqx.
     and_then (reshape_1_1 action) (\<lambda>u.
     and_then (matmul u (R hp)) (\<lambda>ur.
     and_then (reshape_1_1 action) (\<lambda>u'.
     and_then (matmul ur u') (\<lambda>uru. np_add xqx uru))))))"

definition sac_next_state :: "sac_hyper \<Rightarrow> ndarray \<Rightarrow> real list \<Rightarrow> error + ndarray" where
  "sac_next_state hp x action =
     and_then (matmul (A hp) x) (\<lambda>ax.
     and_then (reshape_1_1 action) (\<lambda>u.
     and_then (matmul (B hp) u) (\<lambda>bu. np_add ax bu)))"

text \<open>Lines 240-251, the body of \<^verbatim>\<open>for t in range(max_timesteps)\<close>.\<close>

definition sac_step ::
  "('w, 't) libs \<Rightarrow> sac_hyper \<Rightarrow> nat \<Rightarrow> ('w, 't) sac_vars \<Rightarrow> error + (bool \<times> ('w, 't) sac_vars)" where
  "sac_step lib hp k s =
     and_then (sac_select_action lib (state s) (memory s) (world s)) (\<lambda>(action, m1, w1).
     and_then (sac_cost hp (state s) action) (\<lambda>c.
     and_then (sac_next_state hp (state s) action) (\<lambda>x'.
     and_then (item c) (\<lambda>ci.
       Inr (done s,
            s\<lparr>memory := m1\<lparr>costs := costs m1 @ [ci],
                             is_terminals := is_terminals m1 @ [done s]\<rparr>,
              world := w1, state := x', cost := Some c\<rparr>)))))"

text \<open>Lines 237-251, an episode up to the call of \<^verbatim>\<open>sac.update\<close>.\<close>

definition sac_rollout ::
  "('w, 't) libs \<Rightarrow> sac_hyper \<Rightarrow> ('w, 't) sac_vars \<Rightarrow> error + ('w, 't) sac_vars" where
  "sac_rollout lib hp s =
     (case np_random_randn lib (world s) of (x, w1) \<Rightarrow>
      and_then (for_range (max_timesteps hp) 0 (sac_step lib hp)
                  (s\<lparr>state := [[10 * x]], world := w1, done := False\<rparr>))
        (\<lambda>(_, s'). Inr s'))"

text \<open>Lines 237-264, the body of \<^verbatim>\<open>for i_episode in range(1, max_episodes+1)\<close>.\<close>

definition sac_episode ::
  "('w, 't) libs \<Rightarrow> sac_hyper \<Rightarrow> nat \<Rightarrow> ('w, 't) sac_vars \<Rightarrow> error + (bool \<times> ('w, 't) sac_vars)" where
  "sac_episode lib hp i_episode s =
     and_then (sac_rollout lib hp s) (\<lambda>s2.
     and_then (sac_update lib hp (memory s2) (world s2)) (\<lambda>w2.
       let s3 = s2\<lparr>world := w2, memory := sac_clear_memory (memory s2)\<rparr> in
     and_then (case cost s3 of None \<Rightarrow> Inl NameError | Some c \<Rightarrow> item c) (\<lambda>ci.
       let s4 = s3\<lparr>running_cost := running_cost s3 + ci\<rparr> in
     and_then (py_mod i_episode (log_interval hp)) (\<lambda>rest.
       if rest = 0 then
         Inr (False,
              s4\<lparr>effects := effects s4 @
                     [Print_episode i_episode [running_cost s4 / real (log_interval hp)]],
                 running_cost := 0\<rparr>)
       else Inr (False, s4)))))"

text \<open>Lines 223-233: seeding, the memory and the agent.\<close>

definition sac_setup :: "('w, 't) libs \<Rightarrow> sac_hyper \<Rightarrow> 'w \<Rightarrow> error + ('w, 't) sac_vars" where
  "sac_setup lib hp w0 =
     (let seeded = (random_seed hp \<noteq> 0);
          out0 = (if seeded then [Print_seed (random_seed hp)] else []);
          w1 = (if seeded
                then np_random_seed lib (random_seed hp) (manual_seed lib (random_seed hp) w0)
                else w0)
      in
      and_then (SAC_new lib (state_dim hp) (action_dim hp) (n_latent_var hp) (tau hp) (lr hp)
                  (betas hp) w1) (\<lambda>w2.
        Inr \<lparr>memory = sac_Memory_init, world = w2,
             effects = out0 @ [Print_rates [lr hp, tau hp, fst (betas hp), snd (betas hp)]],
             running_cost = 0, state = [], done = False, cost = None\<rparr>))"

text \<open>Lines 236-264, the training loop.\<close>

definition sac_training ::
  "('w, 't) libs \<Rightarrow> sac_hyper \<Rightarrow> ('w, 't) sac_vars \<Rightarrow> error + ('w, 't) sac_vars" where
  "sac_training lib hp s =
     and_then (for_range (max_episodes hp) 1 (sac_episode lib hp) s) (\<lambda>(_, s'). Inr s')"

text \<open>
  Lines 268-273, after the training loop: an initial state is drawn and the optimal
  gain \<open>K\<close> and the matrix \<open>P\<close> are computed.  Lines 275-281, which would simulate and
  plot, are a comment under \<^verbatim>\<open># TODO\<close>; the functions \<^verbatim>\<open>simulate\<close>, \<^verbatim>\<open>compare_paths\<close>,
  \<^verbatim>\<open>compare_V\<close> and \<^verbatim>\<open>compare_P\<close> of this script are never called.
\<close>

definition sac_after_training ::
  "('w, 't) libs \<Rightarrow> sac_hyper \<Rightarrow> ('w, 't) sac_vars
     \<Rightarrow> error + (ndarray \<times> ndarray \<times> ('w, 't) sac_vars)" where
  "sac_after_training lib hp s =
     (case np_random_uniform lib (- 5) 5 (world s) of (x, w1) \<Rightarrow>
      and_then (dlqr lib (A hp) (B hp) (Q hp) (R hp)) (\<lambda>(K, P).
        Inr (K, P, s\<lparr>world := w1\<rparr>)))"

text \<open>The script, for any values of the hyperparameter block, and as it stands.\<close>

definition sac_run ::
  "('w, 't) libs \<Rightarrow> sac_hyper \<Rightarrow> 'w \<Rightarrow> error + (ndarray \<times> ndarray \<times> ('w, 't) sac_vars)" where
  "sac_run lib hp w0 =
     and_then (sac_setup lib hp w0) (\<lambda>s.
     and_then (sac_training lib hp s) (\<lambda>s'. sac_after_training lib hp s'))"

definition sac_main ::
  "('w, 't) libs \<Rightarrow> 'w \<Rightarrow> error + (ndarray \<times> ndarray \<times> ('w, 't) sac_vars)" where
  "sac_main lib w0 = sac_run lib sac_hyperparameters w0"

subsection \<open>The linear-quadratic regulator in words\<close>

text \<open>
  The stage cost \<open>x\<^sup>T Q x + u\<^sup>T R u\<close> and the linear update \<open>A x + B u\<close>, written
  from their formulas with the transposes in place; reference definitions for the
  costs and updates of the two scripts.
\<close>

definition quadratic_cost :: "ndarray \<Rightarrow> ndarray \<Rightarrow> ndarray \<Rightarrow> ndarray \<Rightarrow> error + ndarray" where
  "quadratic_cost q r x u =
     and_then (matmul q x) (\<lambda>qx.
     and_then (matmul (transpose x) qx) (\<lambda>xqx.
     and_then (matmul r u) (\<lambda>ru.
     and_then (matmul (transpose u) ru) (\<lambda>uru. np_add xqx uru))))"

definition linear_update :: "ndarray \<Rightarrow> ndarray \<Rightarrow> ndarray \<Rightarrow> ndarray \<Rightarrow> error + ndarray" where
  "linear_update a b x u =
     and_then (matmul a x) (\<lambda>ax. and_then (matmul b u) (\<lambda>bu. np_add ax bu))"

subsection \<open>An invariant of the SAC rollout\<close>

text \<open>
  Since the list \<open>ds0\<close> of flags and \<open>n0\<close> costs were in the memory, only \<^verbatim>\<open>False\<close> has
  been appended to the flags, as many times as costs were appended, and \<open>done\<close> is
  \<^verbatim>\<open>False\<close>.
\<close>

definition no_terminal_since :: "bool list \<Rightarrow> nat \<Rightarrow> ('w, 't) sac_vars \<Rightarrow> bool" where
  "no_terminal_since ds0 n0 x \<longleftrightarrow>
     \<not> done x
     \<and> (\<exists>n. is_terminals (memory x) = ds0 @ replicate n False
            \<and> length (costs (memory x)) = n0 + n)"

subsection \<open>A small library for running the definitions\<close>

text \<open>
  Deterministic stand-ins for the libraries, on which the definitions above can be
  evaluated: the library state is a counter of calls, a tensor is one number.  The
  policy of the PPO agent halves the state, the SAC agent always acts 1.
\<close>

definition toy_libs :: "(nat, real) libs" where
  "toy_libs =
     \<lparr>manual_seed = (\<lambda>n w. n),
      np_random_seed = (\<lambda>n w. w),
      np_random_uniform = (\<lambda>low high w. (low, Suc w)),
      np_random_randn = (\<lambda>w. (1, Suc w)),
      dlqr = (\<lambda>a b q r. Inr ([[1 / 2]], [[3 / 2]])),
      simulate_discrete = (\<lambda>a b k x0 u0 n. Inr ([replicate (Suc n) 0], [replicate (Suc n) 0])),
      trueloss = (\<lambda>a b q r k xs n g. Inr (map (\<lambda>x. x * x) xs)),
      FloatTensor = (\<lambda>a. sum_list (concat a)),
      numpy_flatten = (\<lambda>x. [x]),
      stack = (\<lambda>xs. Inr (sum_list xs)),
      PPO_new = (\<lambda>sd ad nl sd' alr clr bs dbl w. Inr w),
      ppo_act_sample = (\<lambda>w x. Inr (- x / 2, 0, Suc w)),
      ppo_actor_normalize = (\<lambda>rs. Inr (sum_list rs)),
      ppo_evaluate = (\<lambda>w ss as al. Inr (0, 0)),
      entries = (\<lambda>x. [x]),
      ppo_actor_step = (\<lambda>loss w. Inr (Suc w)),
      ppo_load_state_dict = (\<lambda>w. w),
      ppo_critic_normalize = (\<lambda>al rs. Inr (sum_list rs)),
      ppo_critic_epoch = (\<lambda>al ss rs w. Inr (Suc w)),
      ppo_actor_forward = (\<lambda>w x. Inr (map (\<lambda>v. - v / 2) x)),
      ppo_critic_forward = (\<lambda>w xs. Inr (map (\<lambda>x. x * x / 100) xs)),
      SAC_new = (\<lambda>sd ad nl ta l bs w. Inr w),
      sac_act_sample = (\<lambda>w x. Inr (1, Suc w)),
      sac_costs_tensor = (\<lambda>cs. Inr (sum_list cs)),
      sac_epoch = (\<lambda>ta cs ss as w. Inr (Suc w)),
      sac_load_state_dict = (\<lambda>w. w)\<rparr>"

text \<open>The variables of the two scripts after their set-up on this library.\<close>

definition toy_ppo_start :: "(nat, real) ppo_vars" where
  "toy_ppo_start =
     \<lparr>ppo_vars.memory = ppo_Memory_init, world = 1,
      effects = [Print_seed 1, Print_rates [1 / 1000, 1 / 1000, 9 / 10, 999 / 1000]],
      running_reward = 0, avg_length = 0, time_step = 0, state = [], done = False,
      t = None\<rparr>"

definition toy_sac_start :: "(nat, real) sac_vars" where
  "toy_sac_start =
     \<lparr>memory = sac_Memory_init, world = 1,
      effects = [Print_seed 1, Print_rates [1 / 1000, 1 / 20, 9 / 10, 999 / 1000]],
      running_cost = 0, state = [], done = False, cost = None\<rparr>"

text \<open>
  A second stand-in, for looking at the loss of an update: a tensor is the list of its
  entries, and the library state is the list of the losses on which the actor has taken
  a gradient step.  Normalizing is the formula of lines 180-181 with the unbiased
  standard deviation; \<^verbatim>\<open>policy.evaluate\<close> returns as new log-probability of a step the sum
  of its state and its action, and for every state the value \<open>- alpha / 100\<close>.
\<close>

definition recording_libs :: "(real list list list, real list) libs" where
  "recording_libs =
     \<lparr>manual_seed = (\<lambda>n w. w),
      np_random_seed = (\<lambda>n w. w),
      np_random_uniform = (\<lambda>low high w. (low, w)),
      np_random_randn = (\<lambda>w. (1, w)),
      dlqr = (\<lambda>a b q r. Inr ([[1 / 2]], [[3 / 2]])),
      simulate_discrete = (\<lambda>a b k x0 u0 n. Inr ([replicate (Suc n) 0], [replicate (Suc n) 0])),
      trueloss = (\<lambda>a b q r k xs n g. Inr (map (\<lambda>x. x * x) xs)),
      FloatTensor = concat,
      numpy_flatten = (\<lambda>x. x),
      stack = (\<lambda>xs. Inr (concat xs)),
      PPO_new = (\<lambda>sd ad nl sd' alr clr bs dbl w. Inr w),
      ppo_act_sample = (\<lambda>w x. Inr (map (\<lambda>v. - v / 2) x, map (\<lambda>v. v / 2) x, w)),
      ppo_actor_normalize =
        (\<lambda>rs. let mu = sum_list rs / real (length rs);
                   sd = sqrt (sum_list (map (\<lambda>r. (r - mu) * (r - mu)) rs)
                              / (real (length rs) - 1))
               in Inr (map (\<lambda>r. (r - mu) / (sd + 1 / 100000000)) rs)),
      ppo_evaluate = (\<lambda>w ss as al. Inr (map2 (+) ss as, map (\<lambda>s. - al / 100) ss)),
      entries = (\<lambda>x. x),
      ppo_actor_step = (\<lambda>loss w. Inr (w @ [loss])),
      ppo_load_state_dict = (\<lambda>w. w),
      ppo_critic_normalize = (\<lambda>al rs. Inr rs),
      ppo_critic_epoch = (\<lambda>al ss rs w. Inr w),
      ppo_actor_forward = (\<lambda>w x. Inr (map (\<lambda>v. - v / 2) x)),
      ppo_critic_forward = (\<lambda>w xs. Inr (map (\<lambda>x. x * x / 100) xs)),
      SAC_new = (\<lambda>sd ad nl ta l bs w. Inr w),
      sac_act_sample = (\<lambda>w x. Inr ([1], w)),
      sac_costs_tensor = (\<lambda>cs. Inr cs),
      sac_epoch = (\<lambda>ta cs ss as w. Inr w),
      sac_load_state_dict = (\<lambda>w. w)\<rparr>"

text \<open>A memory of two stored steps, both terminal, with equal rewards.\<close>

definition two_step_memory :: "real list ppo_Memory" where
  "two_step_memory =
     \<lparr>ppo_Memory.actions = [[1 / 2], [1 / 4]], states = [[1 / 2], [1 / 4]],
      logprobs = [[1], [1 / 2]], rewards = [2, 2], is_terminals = [True, True]\<rparr>"



text \<open>The hyperparameter blocks with short loops.\<close>

definition toy_ppo_hyper :: ppo_hyper where
  "toy_ppo_hyper =
     ppo_hyperparameters\<lparr>ppo_hyper.log_interval := 1, ppo_hyper.max_episodes := 1,
       ppo_hyper.max_timesteps := 2, ppo_hyper.update_timestep := 2,
       ppo_hyper.K_epochs := 1\<rparr>"

definition toy_sac_hyper :: sac_hyper where
  "toy_sac_hyper =
     sac_hyperparameters\<lparr>log_interval := 1, max_episodes := 1, max_timesteps := 2,
       K_epochs := 1\<rparr>"

section \<open>Properties\<close>

subsection \<open>The discounted-reward loops\<close>

lemma update_actor_loop_snoc:
  "update_actor_loop g (xs @ [(r, d)]) (head_or_zero acc) acc =
     (let acc' = update_actor_loop g xs (head_or_zero acc) acc
      in (r + g * (if d then 0 else head_or_zero acc')) # acc')"
proof (induction xs arbitrary: acc)
  case Nil
  show ?case by simp
next
  case (Cons p xs)
  obtain r' d' where p: "p = (r', d')" by (cases p)
  show ?case
    using Cons.IH [of "(r' + g * (if d' then 0 else head_or_zero acc)) # acc"]
    by (simp add: p Let_def)
qed

lemma update_actor_loop_returns:
  "length rs = length ds \<Longrightarrow>
   update_actor_loop g (zip (rev rs) (rev ds)) 0 [] = discounted_returns g rs ds"
proof (induction rs ds rule: list_induct2)
  case Nil
  show ?case by simp
next
  case (Cons r rs d ds)
  have "update_actor_loop g (zip (rev rs) (rev ds) @ [(r, d)]) (head_or_zero []) [] =
        (let acc' = update_actor_loop g (zip (rev rs) (rev ds)) (head_or_zero []) []
         in (r + g * (if d then 0 else head_or_zero acc')) # acc')"
    by (rule update_actor_loop_snoc)
  with Cons show ?case by (simp add: Let_def)
qed

lemma update_critic_loop_actor:
  "update_critic_loop g ps dr acc = update_actor_loop g ps dr acc"
  by (induction g ps dr acc rule: update_critic_loop.induct) (simp_all add: Let_def)

lemma sac_update_loop_actor:
  "sac_update_loop g ps dc acc = update_actor_loop g ps dc acc"
  by (induction g ps dc acc rule: sac_update_loop.induct) (simp_all add: Let_def)

text \<open>
  Claim C8.  For a memory whose \<open>rewards\<close> and \<open>is_terminals\<close> have the same length, the
  list of discounted rewards built at the start of \<open>PPO.update_actor\<close> is equal, entry
  by entry, to the list built at the start of \<open>PPO.update_critic\<close>, and both are the
  recurrence "reward plus gamma times the running sum, the running sum reset to zero at
  a terminal step", read from the last step to the first.
\<close>

theorem discounted_rewards_actor_critic:
  assumes "length (rewards m) = length (ppo_Memory.is_terminals m)"
  shows "update_actor_rewards g m = update_critic_rewards g m
       \<and> update_actor_rewards g m =
           discounted_returns g (rewards m) (ppo_Memory.is_terminals m)"
  using assms
  by (simp add: update_actor_rewards_def update_critic_rewards_def
        update_critic_loop_actor update_actor_loop_returns)

theorem discounted_rewards_actor_critic_witness:
  "length (rewards \<lparr>ppo_Memory.actions = [], states = [], logprobs = [] :: unit list,
      rewards = [1, 2, 3], is_terminals = [False, True, False]\<rparr>)
     = length (ppo_Memory.is_terminals \<lparr>ppo_Memory.actions = [], states = [],
         logprobs = [] :: unit list, rewards = [1, 2, 3],
         is_terminals = [False, True, False]\<rparr>)
   \<and> update_actor_rewards (1 / 2) \<lparr>ppo_Memory.actions = [], states = [],
         logprobs = [] :: unit list, rewards = [1, 2, 3],
         is_terminals = [False, True, False]\<rparr> = [2, 2, 3]
   \<and> update_critic_rewards (1 / 2) \<lparr>ppo_Memory.actions = [], states = [],
         logprobs = [] :: unit list, rewards = [1, 2, 3],
         is_terminals = [False, True, False]\<rparr> = [2, 2, 3]"
  using discounted_rewards_actor_critic [of "\<lparr>ppo_Memory.actions = [], states = [],
      logprobs = [] :: unit list, rewards = [1, 2, 3],
      is_terminals = [False, True, False]\<rparr>" "1 / 2"]
  by auto

subsection \<open>Clearing a memory\<close>

text \<open>
  Claim C10.  In both scripts \<open>clear_memory\<close> leaves the five lists of the memory empty
  and changes nothing else of the object: whatever further attributes the object
  carries (the extension part of the record) are the same before and after.
\<close>

theorem clear_memory_empties_lists:
  "ppo_Memory.actions (ppo_clear_memory m) = []
   \<and> ppo_Memory.states (ppo_clear_memory m) = []
   \<and> ppo_Memory.logprobs (ppo_clear_memory m) = []
   \<and> rewards (ppo_clear_memory m) = []
   \<and> ppo_Memory.is_terminals (ppo_clear_memory m) = []
   \<and> ppo_Memory.more (ppo_clear_memory m) = ppo_Memory.more m
   \<and> sac_Memory.actions (sac_clear_memory n) = []
   \<and> sac_Memory.states (sac_clear_memory n) = []
   \<and> sac_Memory.logprobs (sac_clear_memory n) = []
   \<and> costs (sac_clear_memory n) = []
   \<and> sac_Memory.is_terminals (sac_clear_memory n) = []
   \<and> sac_Memory.more (sac_clear_memory n) = sac_Memory.more n"
  by (simp add: ppo_clear_memory_def sac_clear_memory_def)

subsection \<open>Sequencing and loops\<close>

lemma and_then_Inl [simp]: "and_then (Inl e) f = Inl e"
  by (simp add: and_then_def)

lemma and_then_Inr [simp]: "and_then (Inr x) f = f x"
  by (simp add: and_then_def)

lemma for_range_numeral:
  "for_range (numeral v) i body s = for_range (Suc (pred_numeral v)) i body s"
  by (simp add: numeral_eq_Suc)


lemma for_range_invariant:
  assumes "for_range n i body s = Inr (b, s')"
    and "P s"
    and "\<And>j x c x'. P x \<Longrightarrow> body j x = Inr (c, x') \<Longrightarrow> P x'"
  shows "P s'"
  using assms(1,2)
proof (induction n arbitrary: i s)
  case 0
  then show ?case by simp
next
  case (Suc n)
  from Suc.prems(1) obtain c x where first: "body i s = Inr (c, x)"
    by (auto simp: and_then_def split: sum.splits)
  have x: "P x" using assms(3) [OF Suc.prems(2) first] .
  show ?case
  proof (cases c)
    case True
    with Suc.prems(1) first have "s' = x" by simp
    with x show ?thesis by simp
  next
    case False
    with Suc.prems(1) first have "for_range n (Suc i) body x = Inr (b, s')" by simp
    from Suc.IH [OF this x] show ?thesis .
  qed
qed

subsection \<open>The surrogate loss\<close>

lemma exp_minus_half_less: "exp (- (1 / 2) :: real) < 8 / 10"
proof -
  have "1 + 1 / 2 \<le> exp (1 / 2 :: real)" by (rule exp_ge_add_one_self)
  then have "inverse (exp (1 / 2 :: real)) \<le> inverse (3 / 2)"
    by (intro le_imp_inverse_le) simp_all
  then show ?thesis by (simp add: exp_minus)
qed

lemma less_exp_half: "8 / 10 < exp (1 / 2 :: real)"
proof -
  have "1 + 1 / 2 \<le> exp (1 / 2 :: real)" by (rule exp_ge_add_one_self)
  then show ?thesis by simp
qed

lemma actor_loss_two_steps:
  "actor_loss (1 / 5) [1, 1 / 2] [1, 1 / 2] [0, 0] [- 1, - 1]
     = Inr [[4 / 5, exp (- (1 / 2))], [4 / 5, 4 / 5]]"
  using exp_minus_half_less less_exp_half
  by (simp add: actor_loss_def advantages_def ratios_def surr2_def broadcast_def
        broadcast_rows_def broadcast_dim_def stretch_def min_def)

lemma two_step_normalized:
  "ppo_actor_normalize recording_libs
     (update_actor_rewards (ppo_hyper.gamma ppo_hyperparameters) two_step_memory) = Inr [0, 0]"
  by (simp add: recording_libs_def update_actor_rewards_def two_step_memory_def Let_def)

lemma two_step_epoch:
  "ppo_actor_epoch recording_libs ppo_hyperparameters [0, 0] [1 / 2, 1 / 4] [1 / 2, 1 / 4]
     [1, 1 / 2] k w
   = Inr (False, w @ [[[8 / 10, exp (- (1 / 2))], [8 / 10, 8 / 10]]])"
proof -
  have hp: "ppo_hyper.eps_clip ppo_hyperparameters = 1 / 5"
    "ppo_hyper.alpha ppo_hyperparameters = 100"
    by (simp_all add: ppo_hyperparameters_def)
  show ?thesis
    by (simp add: ppo_actor_epoch_def recording_libs_def hp actor_loss_two_steps)
qed

text \<open>
  Claim C1 says that in \<open>PPO.update_actor\<close>, for every stored batch and in each of the
  \<open>K_epochs\<close> iterations, the loss of a stored sample is the clipped surrogate
  \<open>min (ratio * advantage, clip (ratio, 1 - eps_clip, 1 + eps_clip) * advantage)\<close> with the
  ratio of the new to the old probability of that sample.  The code does not compute
  this.  Take the memory of two terminal steps with equal rewards (so the normalized
  rewards are 0), stored log-probabilities 1 and 1/2, a policy that has not changed
  since (the new log-probabilities are 1 and 1/2 again) and critic values -1, with the
  hyperparameters of the script.  The advantages are 1 and every sample has ratio 1, so
  the clipped surrogate is 1 for both samples.  Each of the ten epochs of
  \<open>update_actor\<close> instead takes its gradient step on a loss of 2 x 2 entries, one for
  every pair of an old and a new log-probability, that is 0.8 where the ratio is at
  least 0.8, also for the two pairs of a sample with itself.
\<close>

theorem update_actor_loss_is_not_the_clipped_surrogate:
  "ppo_update_actor recording_libs ppo_hyperparameters two_step_memory []
     = Inr (replicate 10 [[8 / 10, exp (- (1 / 2))], [8 / 10, 8 / 10]])
   \<and> actor_loss (2 / 10) [1, 1 / 2] [1, 1 / 2] [0, 0] [- 1, - 1]
     = Inr [[8 / 10, exp (- (1 / 2))], [8 / 10, 8 / 10]]
   \<and> clipped_surrogate_loss (2 / 10) [1, 1 / 2] [1, 1 / 2] [0, 0] [- 1, - 1] = [1, 1]"
proof -
  have stacks: "stack recording_libs (ppo_Memory.states two_step_memory) = Inr [1 / 2, 1 / 4]"
    "stack recording_libs (ppo_Memory.actions two_step_memory) = Inr [1 / 2, 1 / 4]"
    "stack recording_libs (ppo_Memory.logprobs two_step_memory) = Inr [1, 1 / 2]"
    "ppo_load_state_dict recording_libs = (\<lambda>w. w)"
    by (simp_all add: recording_libs_def two_step_memory_def)
  have epochs: "ppo_hyper.K_epochs ppo_hyperparameters = 10"
    by (simp add: ppo_hyperparameters_def)
  have "ppo_update_actor recording_libs ppo_hyperparameters two_step_memory []
     = Inr (replicate 10 [[8 / 10, exp (- (1 / 2))], [8 / 10, 8 / 10]])"
    by (simp add: ppo_update_actor_def two_step_normalized stacks epochs for_range_numeral
          two_step_epoch numeral_eq_Suc)
  moreover have "clipped_surrogate_loss (2 / 10) [1, 1 / 2] [1, 1 / 2] [0, 0] [- 1, - 1] = [1, 1]"
    by (simp add: clipped_surrogate_def clip_def)
  ultimately show ?thesis using actor_loss_two_steps by simp
qed

subsection \<open>The control problem\<close>

lemma matmul_1_1 [simp]: "matmul [[a]] [[b]] = Inr [[a * b]]"
  by (simp add: matmul_def ncols_def dot_def)

lemma transpose_1_1 [simp]: "transpose [[a]] = [[a]]"
  by simp

lemma np_add_1_1 [simp]: "np_add [[a]] [[b]] = Inr [[a + b]]"
  by (simp add: np_add_def ncols_def broadcast_dim_def stretch_def)

lemma reshape_1_1_single [simp]: "reshape_1_1 [u] = Inr [[u]]"
  by (simp add: reshape_1_1_def)

text \<open>
  Claim C3.  Both scripts pose a one-dimensional LQR problem: \<open>state_dim\<close> and
  \<open>action_dim\<close> are 1, the matrices \<open>A\<close>, \<open>B\<close>, \<open>Q\<close>, \<open>R\<close> have shape (1, 1), and for
  every 1 x 1 state and every action of one entry the cost of the step is the quadratic
  form \<open>x\<^sup>T Q x + u\<^sup>T R u\<close> and the next state is \<open>A x + B u\<close>.
\<close>

theorem one_dimensional_lqr:
  "ppo_hyper.state_dim ppo_hyperparameters = 1 \<and> ppo_hyper.action_dim ppo_hyperparameters = 1
   \<and> shape (ppo_hyper.A ppo_hyperparameters) = (1, 1)
   \<and> shape (ppo_hyper.B ppo_hyperparameters) = (1, 1)
   \<and> shape (ppo_hyper.Q ppo_hyperparameters) = (1, 1)
   \<and> shape (ppo_hyper.R ppo_hyperparameters) = (1, 1)
   \<and> ppo_reward ppo_hyperparameters [[x]] [u] =
       quadratic_cost (ppo_hyper.Q ppo_hyperparameters) (ppo_hyper.R ppo_hyperparameters) [[x]] [[u]]
   \<and> ppo_reward ppo_hyperparameters [[x]] [u] = Inr [[x * x + u * u]]
   \<and> ppo_next_state ppo_hyperparameters [[x]] [u] =
       linear_update (ppo_hyper.A ppo_hyperparameters) (ppo_hyper.B ppo_hyperparameters) [[x]] [[u]]
   \<and> ppo_next_state ppo_hyperparameters [[x]] [u] = Inr [[x + u]]
   \<and> state_dim sac_hyperparameters = 1 \<and> action_dim sac_hyperparameters = 1
   \<and> shape (A sac_hyperparameters) = (1, 1)
   \<and> shape (B sac_hyperparameters) = (1, 1)
   \<and> shape (Q sac_hyperparameters) = (1, 1)
   \<and> shape (R sac_hyperparameters) = (1, 1)
   \<and> sac_cost sac_hyperparameters [[x]] [u] =
       quadratic_cost (Q sac_hyperparameters) (R sac_hyperparameters) [[x]] [[u]]
   \<and> sac_cost sac_hyperparameters [[x]] [u] = Inr [[x * x + u * u]]
   \<and> sac_next_state sac_hyperparameters [[x]] [u] =
       linear_update (A sac_hyperparameters) (B sac_hyperparameters) [[x]] [[u]]
   \<and> sac_next_state sac_hyperparameters [[x]] [u] = Inr [[x + u]]"
  by (simp add: ppo_hyperparameters_def sac_hyperparameters_def shape_def ncols_def
        ppo_reward_def ppo_next_state_def sac_cost_def sac_next_state_def
        quadratic_cost_def linear_update_def)

subsection \<open>The flags of the SAC memory\<close>

lemma discounted_returns_no_terminal:
  "length cs = length ds \<Longrightarrow> True \<notin> set ds \<Longrightarrow>
   discounted_returns g cs ds = discounted_sums g cs"
  by (induction cs ds rule: list_induct2) auto

lemma sac_select_action_flags:
  assumes "sac_select_action lib x m w = Inr (a, m', w')"
  shows "is_terminals m' = is_terminals m \<and> costs m' = costs m"
  using assms
  by (auto simp: sac_select_action_def Model_act_def and_then_def split: sum.splits)

lemma sac_step_flags:
  assumes "sac_step lib hp k s = Inr (b, s')"
  shows "b = done s \<and> done s' = done s
       \<and> is_terminals (memory s') = is_terminals (memory s) @ [done s]
       \<and> length (costs (memory s')) = Suc (length (costs (memory s)))"
proof -
  from assms obtain a m1 w1 where
    sel: "sac_select_action lib (state s) (memory s) (world s) = Inr (a, m1, w1)"
    by (auto simp: sac_step_def and_then_def split: sum.splits)
  from sac_select_action_flags [OF sel] assms show ?thesis
    by (auto simp: sac_step_def sel and_then_def split: sum.splits)
qed

lemma sac_step_no_terminal:
  assumes "no_terminal_since ds0 n0 x" and "sac_step lib hp k x = Inr (b, x')"
  shows "no_terminal_since ds0 n0 x'"
proof -
  from assms(1) obtain n where
    d: "\<not> done x" and f: "is_terminals (memory x) = ds0 @ replicate n False"
    and c: "length (costs (memory x)) = n0 + n"
    by (auto simp: no_terminal_since_def)
  from sac_step_flags [OF assms(2)] d f c
  have "\<not> done x'"
    and "is_terminals (memory x') = ds0 @ replicate (Suc n) False"
    and "length (costs (memory x')) = n0 + Suc n"
    by (simp_all add: replicate_append_same)
  then show ?thesis unfolding no_terminal_since_def by blast
qed

text \<open>
  Claim C9.  In the training loop of the SAC script \<open>done\<close> is set to \<^verbatim>\<open>False\<close> at the
  start of an episode and never assigned again, so every flag appended to
  \<open>memory.is_terminals\<close> is \<^verbatim>\<open>False\<close>.  Hence, when the memory held no \<^verbatim>\<open>True\<close> flag
  before (it is empty at the start of every episode), the discounted costs that
  \<open>SAC.update\<close> computes from it are the plain discounted sums: the recurrence never
  resets.
\<close>

theorem sac_is_terminals_all_False:
  assumes rollout: "sac_rollout lib hp s = Inr s'"
    and flags: "True \<notin> set (is_terminals (memory s))"
    and lens: "length (costs (memory s)) = length (is_terminals (memory s))"
  shows "done s' = False
       \<and> (\<exists>n. is_terminals (memory s') = is_terminals (memory s) @ replicate n False)
       \<and> True \<notin> set (is_terminals (memory s'))
       \<and> sac_update_costs g (memory s') = discounted_sums g (costs (memory s'))"
proof -
  obtain x w1 where draw: "np_random_randn lib (world s) = (x, w1)"
    by (cases "np_random_randn lib (world s)")
  let ?s0 = "s\<lparr>state := [[10 * x]], world := w1, done := False\<rparr>"
  let ?ds0 = "is_terminals (memory s)" and ?n0 = "length (costs (memory s))"
  from rollout draw obtain b where
    loop: "for_range (max_timesteps hp) 0 (sac_step lib hp) ?s0 = Inr (b, s')"
    by (auto simp: sac_rollout_def and_then_def split: sum.splits)
  have start: "no_terminal_since ?ds0 ?n0 ?s0"
    by (simp add: no_terminal_since_def)
  have "no_terminal_since ?ds0 ?n0 s'"
    by (rule for_range_invariant [where P = "no_terminal_since ?ds0 ?n0", OF loop start])
      (rule sac_step_no_terminal)
  then obtain n where d: "\<not> done s'"
    and f: "is_terminals (memory s') = ?ds0 @ replicate n False"
    and c: "length (costs (memory s')) = ?n0 + n"
    by (auto simp: no_terminal_since_def)
  from f flags have none: "True \<notin> set (is_terminals (memory s'))" by auto
  from f c lens have len: "length (costs (memory s')) = length (is_terminals (memory s'))"
    by simp
  have "sac_update_costs g (memory s') = discounted_sums g (costs (memory s'))"
    by (simp add: sac_update_costs_def sac_update_loop_actor
          update_actor_loop_returns [OF len] discounted_returns_no_terminal [OF len none])
  with d f none show ?thesis by blast
qed

theorem sac_is_terminals_all_False_witness:
  "sac_rollout toy_libs (sac_hyperparameters\<lparr>max_timesteps := 2\<rparr>) toy_sac_start
   = Inr \<lparr>memory = \<lparr>actions = [1, 1], states = [10, 11], logprobs = [],
                     costs = [101, 122], is_terminals = [False, False]\<rparr>,
          world = 4,
          effects = [Print_seed 1, Print_rates [1 / 1000, 1 / 20, 9 / 10, 999 / 1000]],
          running_cost = 0, state = [[12]],
          done = False, cost = Some [[122]]\<rparr>
   \<and> True \<notin> set (is_terminals (memory toy_sac_start))
   \<and> length (costs (memory toy_sac_start)) = length (is_terminals (memory toy_sac_start))
   \<and> sac_update_costs 1 \<lparr>actions = [1, 1 :: real], states = [10, 11], logprobs = [],
        costs = [101, 122], is_terminals = [False, False]\<rparr> = [223, 122]"
proof -
  have run: "sac_rollout toy_libs (sac_hyperparameters\<lparr>max_timesteps := 2\<rparr>) toy_sac_start
   = Inr \<lparr>memory = \<lparr>actions = [1, 1], states = [10, 11], logprobs = [],
                     costs = [101, 122], is_terminals = [False, False]\<rparr>,
          world = 4,
          effects = [Print_seed 1, Print_rates [1 / 1000, 1 / 20, 9 / 10, 999 / 1000]],
          running_cost = 0, state = [[12]],
          done = False, cost = Some [[122]]\<rparr>"
    by (simp add: sac_rollout_def toy_libs_def toy_sac_start_def sac_hyperparameters_def
          sac_Memory_init_def numeral_2_eq_2 sac_step_def sac_select_action_def Model_act_def
          sac_cost_def sac_next_state_def reshape_1_any_def item_def)
  have flags: "True \<notin> set (is_terminals (memory toy_sac_start))"
    and lens: "length (costs (memory toy_sac_start))
       = length (is_terminals (memory toy_sac_start))"
    by (simp_all add: toy_sac_start_def sac_Memory_init_def)
  from sac_is_terminals_all_False [OF run flags lens, of 1]
  have "sac_update_costs 1 \<lparr>actions = [1, 1 :: real], states = [10, 11], logprobs = [],
        costs = [101, 122], is_terminals = [False, False]\<rparr> = [223, 122]"
    by simp
  with run flags lens show ?thesis by (intro conjI)
qed

subsection \<open>Exceptions\<close>





















subsection \<open>What the scripts emit\<close>

text \<open>The steps of the inner loops emit nothing, an episode emits at most its log
  lines; the part of the PPO script after the loop emits exactly three figures.\<close>

lemma and_then_eq_Inr: "and_then r f = Inr y \<longleftrightarrow> (\<exists>x. r = Inr x \<and> f x = Inr y)"
  by (cases r) simp_all

lemma ppo_update_effects:
  "ppo_update lib hp s = Inr s' \<Longrightarrow> ppo_vars.effects s' = ppo_vars.effects s"
  by (auto simp: ppo_update_def and_then_eq_Inr)

lemma ppo_step_effects:
  assumes "ppo_step lib hp k s = Inr (b, s')"
  shows "ppo_vars.effects s' = ppo_vars.effects s"
  using assms
  by (auto simp: ppo_step_def Let_def and_then_eq_Inr split: if_splits dest!: ppo_update_effects)

lemma ppo_steps_effects:
  assumes "for_range n i (ppo_step lib hp) s = Inr (b, s')"
  shows "ppo_vars.effects s' = ppo_vars.effects s"
  by (rule for_range_invariant [where P = "\<lambda>x. ppo_vars.effects x = ppo_vars.effects s", OF assms])
    (simp_all add: ppo_step_effects)

lemma ppo_episode_effects:
  assumes "ppo_episode lib hp i s = Inr (b, s')"
  shows "ppo_vars.effects s' = ppo_vars.effects s
       \<or> (\<exists>v. ppo_vars.effects s' = ppo_vars.effects s @ [Close_all, Print_episode i v])"
  using assms
  by (auto simp: ppo_episode_def Let_def and_then_eq_Inr
        split: prod.splits if_splits option.splits dest!: ppo_steps_effects)

lemma ppo_training_effects:
  assumes "ppo_training lib hp s = Inr s'"
    and "filter f (ppo_vars.effects s) = []" and "\<not> f Close_all" and "\<And>i v. \<not> f (Print_episode i v)"
  shows "filter f (ppo_vars.effects s') = []"
proof -
  from assms(1) obtain b where
    loop: "for_range (ppo_hyper.max_episodes hp) 1 (ppo_episode lib hp) s = Inr (b, s')"
    by (auto simp: ppo_training_def and_then_eq_Inr)
  show ?thesis
  proof (rule for_range_invariant [where P = "\<lambda>x. filter f (ppo_vars.effects x) = []", OF loop assms(2)])
    fix j x c x'
    assume "filter f (ppo_vars.effects x) = []" and "ppo_episode lib hp j x = Inr (c, x')"
    with ppo_episode_effects [of lib hp j x c x'] assms(3,4)
    show "filter f (ppo_vars.effects x') = []" by auto
  qed
qed

lemma ppo_setup_effects:
  assumes "ppo_setup lib hp w0 = Inr (K, s)"
  shows "filter writes_file (ppo_vars.effects s) = []"
    and "\<exists>P. dlqr lib (ppo_hyper.A hp) (ppo_hyper.B hp) (ppo_hyper.Q hp) (ppo_hyper.R hp) = Inr (K, P)"
  using assms
  by (auto simp: ppo_setup_def Let_def and_then_eq_Inr split: if_splits)

lemma compare_paths_shows:
  assumes "compare_paths x_sim x_star lab out = Inr out'"
  shows "out' = out @ [Show \<lparr>curves = [(''Agent'', arange (length x_star), x_sim),
                                       (''True'', arange (length x_star), x_star)],
                             xlabel = ''Time'', ylabel = lab\<rparr>]"
  using assms by (simp add: compare_paths_def Let_def split: if_splits)

lemma compare_V_shows:
  assumes "compare_V lib w a b q r K n g al out = Inr out'"
  shows "\<exists>v tl. ppo_critic_forward lib w (linspace (- 1) 1) = Inr v
           \<and> trueloss lib a b q r K (linspace (- 1) 1) n g = Inr tl
           \<and> out' = out @ [Show \<lparr>curves = [(''Approx. Loss Function'', linspace (- 1) 1,
                                              map ((*) al) v),
                                             (''Real Loss Function'', linspace (- 1) 1, tl)],
                                   xlabel = ''x'', ylabel = ''y''\<rparr>]"
  using assms by (auto simp: compare_V_def Let_def and_then_eq_Inr split: if_splits)

lemma ppo_comparison_shows:
  assumes "ppo_comparison lib hp K s1 = Inr s"
  shows "\<exists>x0 w1 x_star u_star x_sim u_sim v tl.
           np_random_randn lib (ppo_vars.world s1) = (x0, w1)
         \<and> simulate_discrete lib (ppo_hyper.A hp) (ppo_hyper.B hp) K [[x0]] [[0]] 50
             = Inr (x_star, u_star)
         \<and> simulate lib w1 (ppo_hyper.A hp) (ppo_hyper.B hp) [x0] [0] 50 = Inr (x_sim, u_sim)
         \<and> ppo_critic_forward lib w1 (linspace (- 1) 1) = Inr v
         \<and> trueloss lib (ppo_hyper.A hp) (ppo_hyper.B hp) (ppo_hyper.Q hp) (ppo_hyper.R hp) K
               (linspace (- 1) 1) 50 (ppo_hyper.gamma hp) = Inr tl
         \<and> ppo_vars.effects s = ppo_vars.effects s1 @
             [Show \<lparr>curves = [(''Agent'', arange (length (squeeze (map butlast x_star))), x_sim),
                              (''True'', arange (length (squeeze (map butlast x_star))),
                               squeeze (map butlast x_star))],
                    xlabel = ''Time'', ylabel = ''state''\<rparr>,
              Show \<lparr>curves = [(''Agent'', arange (length (squeeze (map butlast u_star))), u_sim),
                              (''True'', arange (length (squeeze (map butlast u_star))),
                               squeeze (map butlast u_star))],
                    xlabel = ''Time'', ylabel = ''action''\<rparr>,
              Show \<lparr>curves = [(''Approx. Loss Function'', linspace (- 1) 1,
                               map ((*) (ppo_hyper.alpha hp)) v),
                              (''Real Loss Function'', linspace (- 1) 1, tl)],
                    xlabel = ''x'', ylabel = ''y''\<rparr>]"
proof -
  obtain x0 w1 where draw: "np_random_randn lib (ppo_vars.world s1) = (x0, w1)"
    by (cases "np_random_randn lib (ppo_vars.world s1)")
  from assms draw obtain x_star u_star x_sim u_sim out1 out2 out3 where
    sd: "simulate_discrete lib (ppo_hyper.A hp) (ppo_hyper.B hp) K [[x0]] [[0]] 50
           = Inr (x_star, u_star)"
    and sim: "simulate lib w1 (ppo_hyper.A hp) (ppo_hyper.B hp) [x0] [0] 50 = Inr (x_sim, u_sim)"
    and c1: "compare_paths x_sim (squeeze (map butlast x_star)) ''state'' (ppo_vars.effects s1)
           = Inr out1"
    and c2: "compare_paths u_sim (squeeze (map butlast u_star)) ''action'' out1 = Inr out2"
    and c3: "compare_V lib w1 (ppo_hyper.A hp) (ppo_hyper.B hp) (ppo_hyper.Q hp) (ppo_hyper.R hp)
               K 50 (ppo_hyper.gamma hp) (ppo_hyper.alpha hp) out2 = Inr out3"
    and s: "s = s1\<lparr>ppo_vars.world := w1, ppo_vars.effects := out3\<rparr>"
    by (auto simp: ppo_comparison_def and_then_eq_Inr reshape_1_1_def)
  from compare_V_shows [OF c3] obtain v tl where
    v: "ppo_critic_forward lib w1 (linspace (- 1) 1) = Inr v"
    and tl: "trueloss lib (ppo_hyper.A hp) (ppo_hyper.B hp) (ppo_hyper.Q hp) (ppo_hyper.R hp) K
               (linspace (- 1) 1) 50 (ppo_hyper.gamma hp) = Inr tl"
    and o3: "out3 = out2 @ [Show \<lparr>curves = [(''Approx. Loss Function'', linspace (- 1) 1,
                               map ((*) (ppo_hyper.alpha hp)) v),
                              (''Real Loss Function'', linspace (- 1) 1, tl)],
                    xlabel = ''x'', ylabel = ''y''\<rparr>]"
    by blast
  from compare_paths_shows [OF c1] compare_paths_shows [OF c2] o3 s
  have "ppo_vars.effects s = ppo_vars.effects s1 @
             [Show \<lparr>curves = [(''Agent'', arange (length (squeeze (map butlast x_star))), x_sim),
                              (''True'', arange (length (squeeze (map butlast x_star))),
                               squeeze (map butlast x_star))],
                    xlabel = ''Time'', ylabel = ''state''\<rparr>,
              Show \<lparr>curves = [(''Agent'', arange (length (squeeze (map butlast u_star))), u_sim),
                              (''True'', arange (length (squeeze (map butlast u_star))),
                               squeeze (map butlast u_star))],
                    xlabel = ''Time'', ylabel = ''action''\<rparr>,
              Show \<lparr>curves = [(''Approx. Loss Function'', linspace (- 1) 1,
                               map ((*) (ppo_hyper.alpha hp)) v),
                              (''Real Loss Function'', linspace (- 1) 1, tl)],
                    xlabel = ''x'', ylabel = ''y''\<rparr>]"
    by simp
  with draw sd sim v tl show ?thesis by blast
qed

lemma ppo_run_phases:
  assumes "ppo_run lib hp w0 = Inr s"
  shows "\<exists>K s0 s1. ppo_setup lib hp w0 = Inr (K, s0) \<and> ppo_training lib hp s0 = Inr s1
           \<and> ppo_comparison lib hp K s1 = Inr s"
  using assms by (auto simp: ppo_run_def and_then_eq_Inr)

lemma sac_step_effects:
  assumes "sac_step lib hp k s = Inr (b, s')"
  shows "effects s' = effects s"
  using assms by (auto simp: sac_step_def and_then_eq_Inr)

lemma sac_rollout_effects:
  assumes "sac_rollout lib hp s = Inr s'"
  shows "effects s' = effects s"
proof -
  obtain x w1 where draw: "np_random_randn lib (world s) = (x, w1)"
    by (cases "np_random_randn lib (world s)")
  let ?s0 = "s\<lparr>state := [[10 * x]], world := w1, done := False\<rparr>"
  from assms draw obtain b where
    loop: "for_range (max_timesteps hp) 0 (sac_step lib hp) ?s0 = Inr (b, s')"
    by (auto simp: sac_rollout_def and_then_eq_Inr)
  have "effects s' = effects ?s0"
    by (rule for_range_invariant [where P = "\<lambda>x. effects x = effects ?s0", OF loop])
      (simp_all add: sac_step_effects)
  then show ?thesis by simp
qed

lemma sac_episode_effects:
  assumes "sac_episode lib hp i s = Inr (b, s')"
  shows "effects s' = effects s \<or> (\<exists>v. effects s' = effects s @ [Print_episode i v])"
  using assms
  by (auto simp: sac_episode_def Let_def and_then_eq_Inr split: if_splits
        dest!: sac_rollout_effects)

lemma sac_episode_memory:
  assumes "sac_episode lib hp i s = Inr (b, s')"
  shows "is_terminals (memory s') = [] \<and> costs (memory s') = []"
  using assms
  by (auto simp: sac_episode_def Let_def and_then_eq_Inr sac_clear_memory_def split: if_splits)

lemma sac_training_effects:
  assumes "sac_training lib hp s = Inr s'"
    and "filter f (effects s) = []" and "\<And>i v. \<not> f (Print_episode i v)"
  shows "filter f (effects s') = []"
proof -
  from assms(1) obtain b where
    loop: "for_range (max_episodes hp) 1 (sac_episode lib hp) s = Inr (b, s')"
    by (auto simp: sac_training_def and_then_eq_Inr)
  show ?thesis
  proof (rule for_range_invariant [where P = "\<lambda>x. filter f (effects x) = []", OF loop assms(2)])
    fix j x c x'
    assume "filter f (effects x) = []" and "sac_episode lib hp j x = Inr (c, x')"
    with sac_episode_effects [of lib hp j x c x'] assms(3)
    show "filter f (effects x') = []" by auto
  qed
qed

lemma sac_setup_effects:
  assumes "sac_setup lib hp w0 = Inr s"
  shows "filter writes_file (effects s) = []" and "filter shows_figure (effects s) = []"
  using assms
  by (auto simp: sac_setup_def Let_def and_then_eq_Inr split: if_splits)

lemma sac_after_training_effects:
  assumes "sac_after_training lib hp s = Inr (K, P, s')"
  shows "effects s' = effects s" and "dlqr lib (A hp) (B hp) (Q hp) (R hp) = Inr (K, P)"
  using assms
  by (auto simp: sac_after_training_def and_then_eq_Inr split: prod.splits)

lemma sac_run_phases:
  assumes "sac_run lib hp w0 = Inr (K, P, s)"
  shows "\<exists>s0 s1. sac_setup lib hp w0 = Inr s0 \<and> sac_training lib hp s0 = Inr s1
           \<and> sac_after_training lib hp s1 = Inr (K, P, s)"
  using assms by (auto simp: sac_run_def and_then_eq_Inr)

subsection \<open>Running the scripts on the small library\<close>

lemma length_linspace [simp]: "length (linspace a b) = 100"
  by (simp add: linspace_def)

lemma toy_simulate_step:
  "simulate_step toy_libs w [[1]] [[1]] k ([a], [b], xd, ud) =
     Inr (False, ([a + - a / 2], [- a / 2], xd @ [a], ud @ [b]))"
  by (simp add: simulate_step_def toy_libs_def item1_def matvec_def vec_add_def ncols_def
        dot_def broadcast_dim_def stretch_def)

lemma toy_simulate_loop:
  "\<exists>a' b' xd' ud'.
     for_range n i (simulate_step toy_libs w [[1]] [[1]]) ([a], [b], xd, ud)
       = Inr (False, ([a'], [b'], xd', ud'))
     \<and> length xd' = length xd + n \<and> length ud' = length ud + n"
proof (induction n arbitrary: i a b xd ud)
  case 0
  show ?case by simp
next
  case (Suc n)
  from Suc.IH [of "Suc i" "a + - a / 2" "- a / 2" "xd @ [a]" "ud @ [b]"]
  show ?case by (simp add: toy_simulate_step)
qed

lemma toy_simulate:
  "\<exists>x_sim u_sim. simulate toy_libs w [[1]] [[1]] [a] [b] n = Inr (x_sim, u_sim)
     \<and> length x_sim = n \<and> length u_sim = n"
proof -
  from toy_simulate_loop [of n 0 w a b "[]" "[]"] obtain a' b' xd' ud' where
    "for_range n 0 (simulate_step toy_libs w [[1]] [[1]]) ([a], [b], [], [])
       = Inr (False, ([a'], [b'], xd', ud'))"
    and "length xd' = n" and "length ud' = n"
    by auto
  then show ?thesis by (simp add: simulate_def)
qed

lemma toy_ppo_comparison:
  "\<exists>s. ppo_comparison toy_libs toy_ppo_hyper K s1 = Inr s"
proof -
  obtain x_sim u_sim where
    sim: "simulate toy_libs (Suc (ppo_vars.world s1)) [[1]] [[1]] [1] [0] 50 = Inr (x_sim, u_sim)"
    and len: "length x_sim = 50" "length u_sim = 50"
    using toy_simulate [of "Suc (ppo_vars.world s1)" 1 0 50] by blast
  have A: "ppo_hyper.A toy_ppo_hyper = [[1]]" "ppo_hyper.B toy_ppo_hyper = [[1]]"
    by (simp_all add: toy_ppo_hyper_def ppo_hyperparameters_def)
  have lib: "np_random_randn toy_libs (ppo_vars.world s1) = (1, Suc (ppo_vars.world s1))"
    "\<And>w xs. ppo_critic_forward toy_libs w xs = Inr (map (\<lambda>x. x * x / 100) xs)"
    "\<And>a b q r k xs n g. trueloss toy_libs a b q r k xs n g = Inr (map (\<lambda>x. x * x) xs)"
    by (simp_all add: toy_libs_def)
  have sd: "simulate_discrete toy_libs [[1]] [[1]] K [[1]] [[0]] 50
       = Inr ([replicate 51 0], [replicate 51 0])"
    by (simp add: toy_libs_def numeral_eq_Suc)
  have len': "length (squeeze [butlast (replicate 51 (0::real))]) = 50"
    by (simp add: squeeze_def)
  show ?thesis
    by (simp add: ppo_comparison_def A lib sd sim len len' compare_paths_def compare_V_def
          arange_def Let_def)
qed

lemma toy_ppo_training:
  "ppo_training toy_libs toy_ppo_hyper toy_ppo_start =
     Inr \<lparr>ppo_vars.memory =
            \<lparr>ppo_Memory.actions = [], states = [], logprobs = [], rewards = [],
               is_terminals = []\<rparr>,
          world = 6,
          effects = [Print_seed 1, Print_rates [1 / 1000, 1 / 1000, 9 / 10, 999 / 1000],
                     Close_all, Print_episode 1 [1, 625 / 16]],
          running_reward = 0, avg_length = 0, time_step = 0,
          state = [[- (5 / 4)]], done = False, t = Some 1\<rparr>"
  by (simp add: ppo_training_def ppo_episode_def ppo_step_def ppo_select_action_def
        ActorCritic_act_def ppo_reward_def ppo_next_state_def ppo_update_def
        ppo_update_actor_def ppo_actor_epoch_def actor_loss_def advantages_def ratios_def
        surr2_def broadcast_def broadcast_rows_def broadcast_dim_def stretch_def
        ppo_update_critic_def ppo_clear_memory_def ppo_Memory_init_def
        toy_libs_def toy_ppo_hyper_def ppo_hyperparameters_def toy_ppo_start_def
        for_range_numeral reshape_1_any_def item_def abs_greater_def py_mod_def Let_def)

lemma toy_ppo_setup:
  "ppo_setup toy_libs toy_ppo_hyper 0 = Inr ([[1 / 2]], toy_ppo_start)"
  by (simp add: ppo_setup_def toy_libs_def toy_ppo_hyper_def ppo_hyperparameters_def
        toy_ppo_start_def)

lemma toy_ppo_run: "\<exists>s. ppo_run toy_libs toy_ppo_hyper 0 = Inr s"
  using toy_ppo_comparison by (simp add: ppo_run_def toy_ppo_setup toy_ppo_training)

lemma toy_sac_run:
  "sac_run toy_libs toy_sac_hyper 0 =
     Inr ([[1 / 2]], [[3 / 2]],
          \<lparr>memory = \<lparr>actions = [], states = [], logprobs = [], costs = [],
                       is_terminals = []\<rparr>,
           world = 6,
           effects = [Print_seed 1, Print_rates [1 / 1000, 1 / 20, 9 / 10, 999 / 1000],
                      Print_episode 1 [122]],
           running_cost = 0, state = [[12]], done = False, cost = Some [[122]]\<rparr>)"
  by (simp add: sac_run_def sac_setup_def sac_training_def sac_after_training_def
        sac_episode_def sac_rollout_def sac_step_def sac_select_action_def Model_act_def
        sac_cost_def sac_next_state_def sac_update_def sac_update_costs_def
        sac_clear_memory_def sac_Memory_init_def
        toy_libs_def toy_sac_hyper_def sac_hyperparameters_def
        for_range_numeral reshape_1_any_def item_def py_mod_def Let_def)

subsection \<open>Persistent state\<close>

text \<open>
  Claim C5.  Apart from checkpoints written with \<^verbatim>\<open>torch.save\<close>, no operation of either
  script writes a file.  In fact the only \<^verbatim>\<open>torch.save\<close> of the sources stands in a
  comment, and a run of either script, whatever the libraries return and whatever the
  hyperparameters, emits no file-writing effect at all.
\<close>

theorem no_file_is_written:
  "(ppo_run lib hp w0 = Inr ps \<longrightarrow> filter writes_file (ppo_vars.effects ps) = [])
   \<and> (sac_run lib hq w0 = Inr (K, P, ss) \<longrightarrow> filter writes_file (effects ss) = [])"
proof (intro conjI impI)
  assume "ppo_run lib hp w0 = Inr ps"
  from ppo_run_phases [OF this] obtain K' s0 s1 where
    su: "ppo_setup lib hp w0 = Inr (K', s0)" and train: "ppo_training lib hp s0 = Inr s1"
    and comp: "ppo_comparison lib hp K' s1 = Inr ps"
    by blast
  have "filter writes_file (ppo_vars.effects s1) = []"
    by (rule ppo_training_effects [OF train ppo_setup_effects(1) [OF su]]) simp_all
  with ppo_comparison_shows [OF comp]
  show "filter writes_file (ppo_vars.effects ps) = []" by auto
next
  assume "sac_run lib hq w0 = Inr (K, P, ss)"
  from sac_run_phases [OF this] obtain s0 s1 where
    su: "sac_setup lib hq w0 = Inr s0" and train: "sac_training lib hq s0 = Inr s1"
    and after: "sac_after_training lib hq s1 = Inr (K, P, ss)"
    by blast
  have "filter writes_file (effects s1) = []"
    by (rule sac_training_effects [OF train sac_setup_effects(1) [OF su]]) simp
  with sac_after_training_effects(1) [OF after]
  show "filter writes_file (effects ss) = []" by simp
qed


theorem no_file_is_written_witness:
  "(\<exists>ps. ppo_run toy_libs toy_ppo_hyper 0 = Inr ps
       \<and> filter writes_file (ppo_vars.effects ps) = [])
   \<and> sac_run toy_libs toy_sac_hyper 0 =
       Inr ([[1 / 2]], [[3 / 2]],
            \<lparr>memory = \<lparr>actions = [], states = [], logprobs = [], costs = [],
                         is_terminals = []\<rparr>,
             world = 6,
             effects = [Print_seed 1, Print_rates [1 / 1000, 1 / 20, 9 / 10, 999 / 1000],
                        Print_episode 1 [122]],
             running_cost = 0, state = [[12]], done = False, cost = Some [[122]]\<rparr>)
   \<and> filter writes_file
         [Print_seed 1, Print_rates [1 / 1000, 1 / 20, 9 / 10, 999 / 1000],
          Print_episode 1 [122]] = []"
proof -
  obtain ps where ppo: "ppo_run toy_libs toy_ppo_hyper 0 = Inr ps"
    using toy_ppo_run by blast
  from no_file_is_written [where lib = toy_libs and hp = toy_ppo_hyper and ?w0.0 = 0
      and ps = ps] ppo
  have "filter writes_file (ppo_vars.effects ps) = []" by blast
  with ppo have first: "\<exists>ps. ppo_run toy_libs toy_ppo_hyper 0 = Inr ps
       \<and> filter writes_file (ppo_vars.effects ps) = []"
    by blast
  from no_file_is_written [where lib = toy_libs and hq = toy_sac_hyper and ?w0.0 = 0]
    toy_sac_run
  have "filter writes_file
         [Print_seed 1, Print_rates [1 / 1000, 1 / 20, 9 / 10, 999 / 1000],
          Print_episode 1 [122]] = []"
    by simp
  with first toy_sac_run show ?thesis by (intro conjI)
qed

subsection \<open>Comparison with the optimal controller\<close>

text \<open>
  Claim C2 says that both scripts, after the training loop, compute the optimal gain
  and produce a comparison of the learned policy with the optimal controller.  The SAC
  script does not: the statements after its loop (lines 268-273) draw an initial state
  and call \<^verbatim>\<open>control.dlqr\<close>, and leave what was emitted as it was; a whole run with
  short loops emits the three kinds of log lines and no figure.
\<close>

theorem sac_shows_no_comparison:
  "sac_after_training toy_libs sac_hyperparameters toy_sac_start
     = Inr ([[1 / 2]], [[3 / 2]], toy_sac_start\<lparr>world := 2\<rparr>)
   \<and> effects (toy_sac_start\<lparr>world := 2\<rparr>) = effects toy_sac_start
   \<and> filter shows_figure (effects (toy_sac_start\<lparr>world := 2\<rparr>)) = []
   \<and> sac_run toy_libs toy_sac_hyper 0 =
       Inr ([[1 / 2]], [[3 / 2]],
            \<lparr>memory = \<lparr>actions = [], states = [], logprobs = [], costs = [],
                         is_terminals = []\<rparr>,
             world = 6,
             effects = [Print_seed 1, Print_rates [1 / 1000, 1 / 20, 9 / 10, 999 / 1000],
                        Print_episode 1 [122]],
             running_cost = 0, state = [[12]], done = False, cost = Some [[122]]\<rparr>)
   \<and> filter shows_figure
         [Print_seed 1, Print_rates [1 / 1000, 1 / 20, 9 / 10, 999 / 1000],
          Print_episode 1 [122]] = []"
proof -
  have "sac_after_training toy_libs sac_hyperparameters toy_sac_start
     = Inr ([[1 / 2]], [[3 / 2]], toy_sac_start\<lparr>world := 2\<rparr>)"
    by (simp add: sac_after_training_def toy_libs_def toy_sac_start_def)
  moreover have "filter shows_figure (effects (toy_sac_start\<lparr>world := 2\<rparr>)) = []"
    by (simp add: toy_sac_start_def)
  ultimately show ?thesis using toy_sac_run by simp
qed

text \<open>
  Claim C2, amended.  The PPO script computes the gain \<open>K\<close> with \<^verbatim>\<open>control.dlqr\<close> in its
  set-up, before the training loop; after the loop it shows three figures: the state
  path and the action path of the learned actor (\<^verbatim>\<open>simulate\<close>) against those of the
  optimal controller (\<^verbatim>\<open>control.simulate_discrete\<close> with \<open>K\<close>), and the scaled critic
  against \<^verbatim>\<open>control.trueloss\<close> with \<open>K\<close>.  The SAC script computes \<open>K\<close> and \<open>P\<close> with
  \<^verbatim>\<open>control.dlqr\<close> after its training loop and shows no figure.
\<close>

theorem comparison_with_optimal_controller:
  "(ppo_run lib hp w0 = Inr ps \<longrightarrow>
      (\<exists>K P s0 s1.
          dlqr lib (ppo_hyper.A hp) (ppo_hyper.B hp) (ppo_hyper.Q hp) (ppo_hyper.R hp)
            = Inr (K, P)
        \<and> ppo_setup lib hp w0 = Inr (K, s0)
        \<and> ppo_training lib hp s0 = Inr s1
        \<and> ppo_comparison lib hp K s1 = Inr ps))
   \<and> (ppo_comparison lib hp K1 ps1 = Inr ps2 \<longrightarrow>
      (\<exists>x0 w1 x_star u_star x_sim u_sim v tl.
          np_random_randn lib (ppo_vars.world ps1) = (x0, w1)
        \<and> simulate_discrete lib (ppo_hyper.A hp) (ppo_hyper.B hp) K1 [[x0]] [[0]] 50
            = Inr (x_star, u_star)
        \<and> simulate lib w1 (ppo_hyper.A hp) (ppo_hyper.B hp) [x0] [0] 50 = Inr (x_sim, u_sim)
        \<and> ppo_critic_forward lib w1 (linspace (- 1) 1) = Inr v
        \<and> trueloss lib (ppo_hyper.A hp) (ppo_hyper.B hp) (ppo_hyper.Q hp) (ppo_hyper.R hp) K1
              (linspace (- 1) 1) 50 (ppo_hyper.gamma hp) = Inr tl
        \<and> ppo_vars.effects ps2 = ppo_vars.effects ps1 @
            [Show \<lparr>curves = [(''Agent'', arange (length (squeeze (map butlast x_star))), x_sim),
                             (''True'', arange (length (squeeze (map butlast x_star))),
                              squeeze (map butlast x_star))],
                   xlabel = ''Time'', ylabel = ''state''\<rparr>,
             Show \<lparr>curves = [(''Agent'', arange (length (squeeze (map butlast u_star))), u_sim),
                             (''True'', arange (length (squeeze (map butlast u_star))),
                              squeeze (map butlast u_star))],
                   xlabel = ''Time'', ylabel = ''action''\<rparr>,
             Show \<lparr>curves = [(''Approx. Loss Function'', linspace (- 1) 1,
                              map ((*) (ppo_hyper.alpha hp)) v),
                             (''Real Loss Function'', linspace (- 1) 1, tl)],
                   xlabel = ''x'', ylabel = ''y''\<rparr>]))
   \<and> (sac_run lib hq w0 = Inr (K2, P2, ss) \<longrightarrow>
      dlqr lib (A hq) (B hq) (Q hq) (R hq) = Inr (K2, P2)
      \<and> (\<exists>s0 s1. sac_setup lib hq w0 = Inr s0
             \<and> sac_training lib hq s0 = Inr s1
             \<and> sac_after_training lib hq s1 = Inr (K2, P2, ss)
             \<and> effects ss = effects s1)
      \<and> filter shows_figure (effects ss) = [])"
proof (intro conjI impI)
  assume "ppo_run lib hp w0 = Inr ps"
  from ppo_run_phases [OF this] obtain K s0 s1 where
    su: "ppo_setup lib hp w0 = Inr (K, s0)" and train: "ppo_training lib hp s0 = Inr s1"
    and comp: "ppo_comparison lib hp K s1 = Inr ps"
    by blast
  from ppo_setup_effects(2) [OF su] obtain P where
    "dlqr lib (ppo_hyper.A hp) (ppo_hyper.B hp) (ppo_hyper.Q hp) (ppo_hyper.R hp) = Inr (K, P)"
    by blast
  with su train comp
  show "\<exists>K P s0 s1.
          dlqr lib (ppo_hyper.A hp) (ppo_hyper.B hp) (ppo_hyper.Q hp) (ppo_hyper.R hp)
            = Inr (K, P)
        \<and> ppo_setup lib hp w0 = Inr (K, s0)
        \<and> ppo_training lib hp s0 = Inr s1
        \<and> ppo_comparison lib hp K s1 = Inr ps"
    by blast
next
  assume "ppo_comparison lib hp K1 ps1 = Inr ps2"
  then show "\<exists>x0 w1 x_star u_star x_sim u_sim v tl.
          np_random_randn lib (ppo_vars.world ps1) = (x0, w1)
        \<and> simulate_discrete lib (ppo_hyper.A hp) (ppo_hyper.B hp) K1 [[x0]] [[0]] 50
            = Inr (x_star, u_star)
        \<and> simulate lib w1 (ppo_hyper.A hp) (ppo_hyper.B hp) [x0] [0] 50 = Inr (x_sim, u_sim)
        \<and> ppo_critic_forward lib w1 (linspace (- 1) 1) = Inr v
        \<and> trueloss lib (ppo_hyper.A hp) (ppo_hyper.B hp) (ppo_hyper.Q hp) (ppo_hyper.R hp) K1
              (linspace (- 1) 1) 50 (ppo_hyper.gamma hp) = Inr tl
        \<and> ppo_vars.effects ps2 = ppo_vars.effects ps1 @
            [Show \<lparr>curves = [(''Agent'', arange (length (squeeze (map butlast x_star))), x_sim),
                             (''True'', arange (length (squeeze (map butlast x_star))),
                              squeeze (map butlast x_star))],
                   xlabel = ''Time'', ylabel = ''state''\<rparr>,
             Show \<lparr>curves = [(''Agent'', arange (length (squeeze (map butlast u_star))), u_sim),
                             (''True'', arange (length (squeeze (map butlast u_star))),
                              squeeze (map butlast u_star))],
                   xlabel = ''Time'', ylabel = ''action''\<rparr>,
             Show \<lparr>curves = [(''Approx. Loss Function'', linspace (- 1) 1,
                              map ((*) (ppo_hyper.alpha hp)) v),
                             (''Real Loss Function'', linspace (- 1) 1, tl)],
                   xlabel = ''x'', ylabel = ''y''\<rparr>]"
    by (rule ppo_comparison_shows)
next
  assume run: "sac_run lib hq w0 = Inr (K2, P2, ss)"
  from sac_run_phases [OF run] obtain s0 s1 where
    su: "sac_setup lib hq w0 = Inr s0" and train: "sac_training lib hq s0 = Inr s1"
    and after: "sac_after_training lib hq s1 = Inr (K2, P2, ss)"
    by blast
  note eq = sac_after_training_effects(1) [OF after]
  show "dlqr lib (A hq) (B hq) (Q hq) (R hq) = Inr (K2, P2)"
    by (rule sac_after_training_effects(2) [OF after])
  from su train after eq
  show "\<exists>s0 s1. sac_setup lib hq w0 = Inr s0
             \<and> sac_training lib hq s0 = Inr s1
             \<and> sac_after_training lib hq s1 = Inr (K2, P2, ss)
             \<and> effects ss = effects s1"
    by blast
  have "filter shows_figure (effects s1) = []"
    by (rule sac_training_effects [OF train sac_setup_effects(2) [OF su]]) simp
  with eq show "filter shows_figure (effects ss) = []" by simp
qed

theorem comparison_with_optimal_controller_witness:
  "(\<exists>ps K P s1. ppo_run toy_libs toy_ppo_hyper 0 = Inr ps
       \<and> dlqr toy_libs (ppo_hyper.A toy_ppo_hyper) (ppo_hyper.B toy_ppo_hyper)
            (ppo_hyper.Q toy_ppo_hyper) (ppo_hyper.R toy_ppo_hyper) = Inr (K, P)
       \<and> ppo_comparison toy_libs toy_ppo_hyper K s1 = Inr ps
       \<and> length (filter shows_figure (ppo_vars.effects ps))
           = length (filter shows_figure (ppo_vars.effects s1)) + 3)
   \<and> sac_run toy_libs toy_sac_hyper 0 =
       Inr ([[1 / 2]], [[3 / 2]],
            \<lparr>memory = \<lparr>actions = [], states = [], logprobs = [], costs = [],
                         is_terminals = []\<rparr>,
             world = 6,
             effects = [Print_seed 1, Print_rates [1 / 1000, 1 / 20, 9 / 10, 999 / 1000],
                        Print_episode 1 [122]],
             running_cost = 0, state = [[12]], done = False, cost = Some [[122]]\<rparr>)
   \<and> dlqr toy_libs (A toy_sac_hyper) (B toy_sac_hyper) (Q toy_sac_hyper) (R toy_sac_hyper)
       = Inr ([[1 / 2]], [[3 / 2]])"
proof -
  obtain ps where ppo: "ppo_run toy_libs toy_ppo_hyper 0 = Inr ps"
    using toy_ppo_run by blast
  note inst = comparison_with_optimal_controller [where lib = toy_libs and hp = toy_ppo_hyper
      and hq = toy_sac_hyper and ?w0.0 = 0]
  from inst [where ps = ps] ppo obtain K P s1 where
    d: "dlqr toy_libs (ppo_hyper.A toy_ppo_hyper) (ppo_hyper.B toy_ppo_hyper)
            (ppo_hyper.Q toy_ppo_hyper) (ppo_hyper.R toy_ppo_hyper) = Inr (K, P)"
    and c: "ppo_comparison toy_libs toy_ppo_hyper K s1 = Inr ps"
    by blast
  from inst [where ?K1.0 = K and ?ps1.0 = s1 and ?ps2.0 = ps,
      THEN conjunct2, THEN conjunct1, THEN mp, OF c]
  obtain f1 f2 f3 where
    "ppo_vars.effects ps = ppo_vars.effects s1 @ [Show f1, Show f2, Show f3]"
    by (elim exE conjE) (rule that)
  then have "length (filter shows_figure (ppo_vars.effects ps))
           = length (filter shows_figure (ppo_vars.effects s1)) + 3"
    by simp
  with ppo d c have first: "\<exists>ps K P s1. ppo_run toy_libs toy_ppo_hyper 0 = Inr ps
       \<and> dlqr toy_libs (ppo_hyper.A toy_ppo_hyper) (ppo_hyper.B toy_ppo_hyper)
            (ppo_hyper.Q toy_ppo_hyper) (ppo_hyper.R toy_ppo_hyper) = Inr (K, P)
       \<and> ppo_comparison toy_libs toy_ppo_hyper K s1 = Inr ps
       \<and> length (filter shows_figure (ppo_vars.effects ps))
           = length (filter shows_figure (ppo_vars.effects s1)) + 3"
    by blast
  from inst [where ?K2.0 = "[[1 / 2]]" and ?P2.0 = "[[3 / 2]]"] toy_sac_run
  have "dlqr toy_libs (A toy_sac_hyper) (B toy_sac_hyper) (Q toy_sac_hyper) (R toy_sac_hyper)
       = Inr ([[1 / 2]], [[3 / 2]])"
    by blast
  with first toy_sac_run show ?thesis by (intro conjI)
qed

end
